theory Spec2Isabelle
  imports Complex_Main
begin

section \<open>NeuroVision: face-tracking signal pipeline and session scoring\<close>

text \<open>
  Shallow embedding of \<^verbatim>\<open>src/services/aiEngine.ts\<close> (the \<^verbatim>\<open>useFaceTracker\<close> hook) and
  of \<^verbatim>\<open>src/components/RehabExercise.tsx\<close> (the session state and the clinical analysis).
  JavaScript numbers are modelled as mathematical reals in the signal pipeline (the frame
  sources, the smoothing and the per-tick scoring), where rounding error of IEEE doubles is
  not part of the model. The clinical analysis turns a quotient into an integer with
  \<^verbatim>\<open>Math.round\<close>, and there the last bit of the double decides the result: its divisions
  and multiplications are modelled in binary64, each operation rounding its exact result
  to the nearest double (\<open>fl\<close>). The places where JavaScript arithmetic leaves the numbers
  (division by zero giving \<^verbatim>\<open>Infinity\<close> or \<^verbatim>\<open>NaN\<close>, the falsy test of \<^verbatim>\<open>||\<close>) are written
  out as branches. React state is explicit state passing; \<^verbatim>\<open>Math.random()\<close> is an extra
  argument for each draw.
\<close>

subsection \<open>Types of \<^verbatim>\<open>types.ts\<close>\<close>

datatype RehabMode = DEMO | REAL

datatype DemoState = HEALTHY | LOW | HIGH

datatype ExerciseType = FOLLOW_DOT | BLINK_TRAINING | HEAD_STABILITY

datatype Status = GOOD | WARNING | CRITICAL

record Point =
  px :: real
  py :: real

record EyeLandmarks =
  pupil :: Point
  upperLid :: Point
  lowerLid :: Point
  innerCorner :: Point
  outerCorner :: Point

record FaceData =
  yaw :: real
  pitch :: real
  roll :: real
  eyeOpennessLeft :: real
  eyeOpennessRight :: real
  mouthSymmetry :: real
  gazeX :: real
  gazeY :: real
  blinkDetected :: bool
  confidence :: real
  leftEye :: "EyeLandmarks option"
  rightEye :: "EyeLandmarks option"

subsection \<open>JavaScript arithmetic helpers\<close>

text \<open>\<^verbatim>\<open>Math.round\<close>: the nearest integer, ties towards plus infinity.\<close>

definition js_round :: "real \<Rightarrow> int" where
  "js_round v = \<lfloor>v + 1 / 2\<rfloor>"

text \<open>The remainder operator \<^verbatim>\<open>a % b\<close> on numbers: the quotient is truncated towards zero,
  so the result has the sign of \<open>a\<close>. (Every divisor in the source is a nonzero constant.)\<close>

definition js_mod :: "real \<Rightarrow> real \<Rightarrow> real" where
  "js_mod a b = a - b * of_int (if 0 \<le> a / b then \<lfloor>a / b\<rfloor> else \<lceil>a / b\<rceil>)"

text \<open>IEEE 754 binary64 arithmetic: an operation returns its exact result rounded to the
  nearest double, ties to the even significand. A double of binary exponent \<open>e\<close> is a
  multiple of \<open>2 ^ (e - 52)\<close>; below the normal range (\<open>e < -1022\<close>) the spacing stays that of
  the subnormal numbers. Overflow to \<^verbatim>\<open>Infinity\<close> (magnitudes from \<open>2 ^ 1024\<close> on) is outside
  this model, and integers are exact up to \<open>2 ^ 53\<close>; the counters and durations of a
  session are far below both.\<close>

definition round_even :: "real \<Rightarrow> int" where
  "round_even v =
     (let f = \<lfloor>v\<rfloor>; d = v - of_int f
      in if d < 1 / 2 then f else if 1 / 2 < d then f + 1 else if even f then f else f + 1)"

definition exponent :: "real \<Rightarrow> int" where
  "exponent x = \<lfloor>log 2 \<bar>x\<bar>\<rfloor>"

definition quantum :: "real \<Rightarrow> real" where
  "quantum x = 2 powi (max (exponent x) (- 1022) - 52)"

definition fl :: "real \<Rightarrow> real" where
  "fl x = (if x = 0 then 0 else of_int (round_even (x / quantum x)) * quantum x)"

subsection \<open>Smoothing (\<^verbatim>\<open>aiEngine.ts\<close>, lines 19--56)\<close>

definition DEFAULT_FACE_DATA :: FaceData where
  "DEFAULT_FACE_DATA =
     \<lparr> yaw = 0, pitch = 0, roll = 0,
       eyeOpennessLeft = 9 / 10, eyeOpennessRight = 9 / 10,
       mouthSymmetry = 95 / 100,
       gazeX = 0, gazeY = 0,
       blinkDetected = False, confidence = 0,
       leftEye = None, rightEye = None \<rparr>"

definition POSE_SMOOTHING :: real where
  "POSE_SMOOTHING = 5 / 10"

definition LANDMARK_SMOOTHING :: real where
  "LANDMARK_SMOOTHING = 6 / 10"

definition lerp :: "real \<Rightarrow> real \<Rightarrow> real \<Rightarrow> real" where
  "lerp start end' factor = start + (end' - start) * factor"

definition lerpPoint :: "Point \<Rightarrow> Point \<Rightarrow> real \<Rightarrow> Point" where
  "lerpPoint start end' factor =
     \<lparr> px = lerp (px start) (px end') factor,
       py = lerp (py start) (py end') factor \<rparr>"

definition smoothEye :: "EyeLandmarks option \<Rightarrow> EyeLandmarks \<Rightarrow> real \<Rightarrow> EyeLandmarks" where
  "smoothEye prev curr' factor =
     (case prev of
        None \<Rightarrow> curr'
      | Some p \<Rightarrow>
          \<lparr> pupil = lerpPoint (pupil p) (pupil curr') factor,
            upperLid = lerpPoint (upperLid p) (upperLid curr') factor,
            lowerLid = lerpPoint (lowerLid p) (lowerLid curr') factor,
            innerCorner = lerpPoint (innerCorner p) (innerCorner curr') factor,
            outerCorner = lerpPoint (outerCorner p) (outerCorner curr') factor \<rparr>)"

text \<open>The pose filter run for \<open>n\<close> ticks on a raw input that stays the same: each tick
  stores the smoothed value as the next previous value, as \<^verbatim>\<open>prevDataRef.current = data\<close>
  does.\<close>

fun smooth_ticks :: "nat \<Rightarrow> real \<Rightarrow> real \<Rightarrow> real" where
  "smooth_ticks 0 prev raw = prev"
| "smooth_ticks (Suc n) prev raw = smooth_ticks n (lerp prev raw POSE_SMOOTHING) raw"

subsection \<open>The synthetic generator (\<^verbatim>\<open>simulateData\<close>, lines 112--232)\<close>

text \<open>The profile configuration: the four \<^verbatim>\<open>let\<close> variables set by the \<^verbatim>\<open>if\<close> chain on
  \<^verbatim>\<open>demoProfile\<close>.\<close>

fun headStabilityMult :: "DemoState \<Rightarrow> real" where
  "headStabilityMult LOW = 4.0"
| "headStabilityMult HIGH = 0.2"
| "headStabilityMult HEALTHY = 1.0"

fun blinkRateMult :: "DemoState \<Rightarrow> real" where
  "blinkRateMult LOW = 0.15"
| "blinkRateMult HIGH = 6.0"
| "blinkRateMult HEALTHY = 1.0"

fun gazeJitter :: "DemoState \<Rightarrow> real" where
  "gazeJitter LOW = 0.15"
| "gazeJitter HIGH = 0.02"
| "gazeJitter HEALTHY = 0.0"

fun asymmetry :: "DemoState \<Rightarrow> real" where
  "asymmetry LOW = 0.2"
| "asymmetry HIGH = 0.0"
| "asymmetry HEALTHY = 0.0"

text \<open>Each local constant of \<^verbatim>\<open>simulateData\<close> is a function of the profile, the time and,
  where the source draws one, the random numbers \<open>rx\<close>, \<open>ry\<close> (gaze jitter) and \<open>rb\<close>
  (random blink).\<close>

definition sim_yaw :: "DemoState \<Rightarrow> real \<Rightarrow> real" where
  "sim_yaw p t =
     sin (t / 4000) * 8 * headStabilityMult p + sin (t / 900) * 1.5 * headStabilityMult p"

definition sim_pitch :: "DemoState \<Rightarrow> real \<Rightarrow> real" where
  "sim_pitch p t =
     (cos (t / 5000) * 4 + 2) * headStabilityMult p + sin (t / 1200) * 1.0 * headStabilityMult p"

definition sim_roll :: "DemoState \<Rightarrow> real \<Rightarrow> real" where
  "sim_roll p t = (sin (t / 6000) * 2 + cos (t / 1500) * 0.5) * headStabilityMult p"

definition SACCADE_INTERVAL :: "DemoState \<Rightarrow> real" where
  "SACCADE_INTERVAL p = (if p = HIGH then 800 else 1800)"

definition sim_seed :: "DemoState \<Rightarrow> real \<Rightarrow> real" where
  "sim_seed p t = of_int \<lfloor>t / SACCADE_INTERVAL p\<rfloor>"

definition sim_progress :: "DemoState \<Rightarrow> real \<Rightarrow> real" where
  "sim_progress p t = min 1 (js_mod t (SACCADE_INTERVAL p) / 250)"

definition sim_ease :: "DemoState \<Rightarrow> real \<Rightarrow> real" where
  "sim_ease p t = 1 - (1 - sim_progress p t) ^ 3"

definition sim_scanX :: "DemoState \<Rightarrow> real \<Rightarrow> real \<Rightarrow> real" where
  "sim_scanX p t rx =
     (let targetX = sin (sim_seed p t * 123.45) * 0.5;
          prevTargetX = sin ((sim_seed p t - 1) * 123.45) * 0.5;
          scanX = prevTargetX + (targetX - prevTargetX) * sim_ease p t
      in if gazeJitter p > 0 then scanX + (rx - 0.5) * gazeJitter p else scanX)"

definition sim_scanY :: "DemoState \<Rightarrow> real \<Rightarrow> real \<Rightarrow> real" where
  "sim_scanY p t ry =
     (let targetY = cos (sim_seed p t * 678.90) * 0.3;
          prevTargetY = cos ((sim_seed p t - 1) * 678.90) * 0.3;
          scanY = prevTargetY + (targetY - prevTargetY) * sim_ease p t
      in if gazeJitter p > 0 then scanY + (ry - 0.5) * gazeJitter p else scanY)"

definition sim_gazeX :: "DemoState \<Rightarrow> real \<Rightarrow> real \<Rightarrow> real" where
  "sim_gazeX p t rx = sim_scanX p t rx + - (sim_yaw p t / 35)"

definition sim_gazeY :: "DemoState \<Rightarrow> real \<Rightarrow> real \<Rightarrow> real" where
  "sim_gazeY p t ry = sim_scanY p t ry + - (sim_pitch p t / 35)"

definition sim_isBlinking :: "DemoState \<Rightarrow> real \<Rightarrow> real \<Rightarrow> bool" where
  "sim_isBlinking p t rb =
     (let isSaccading = sim_progress p t < 0.5;
          blinkProb = (if isSaccading then 0.005 else 0.001) * blinkRateMult p;
          blinkCycleLen = 3500 / blinkRateMult p;
          blinkCycle = js_mod t blinkCycleLen / blinkCycleLen;
          isForcedBlink = blinkCycle > 0.96;
          isRandomBlink = rb < blinkProb
      in isForcedBlink \<or> isRandomBlink)"

definition sim_openness :: "DemoState \<Rightarrow> real \<Rightarrow> real \<Rightarrow> real \<Rightarrow> real" where
  "sim_openness p t ry rb =
     (if sim_isBlinking p t rb then 0.02
      else
        (let gazeEffect = max 0 (sim_gazeY p t ry * 0.2);
             pitchEffect = max 0 (sim_pitch p t * 0.01);
             tremor = sin (t / 50) * 0.005
         in max 0.1 (0.94 - gazeEffect - pitchEffect + tremor)))"

definition simLeftEye :: "DemoState \<Rightarrow> real \<Rightarrow> real \<Rightarrow> real \<Rightarrow> real \<Rightarrow> EyeLandmarks" where
  "simLeftEye p t rx ry rb =
     (let headXShift = sim_yaw p t * 0.005;
          headYShift = sim_pitch p t * 0.005;
          irisXShift = sim_gazeX p t rx * 0.08;
          irisYShift = sim_gazeY p t ry * 0.08;
          lidTrackY = irisYShift * 0.5;
          blinkOffset = (1 - sim_openness p t ry rb) * 0.035
      in \<lparr> pupil = \<lparr> px = 0.4 + headXShift + irisXShift, py = 0.45 + headYShift + irisYShift \<rparr>,
           upperLid = \<lparr> px = 0.4 + headXShift, py = 0.42 + headYShift + lidTrackY + blinkOffset \<rparr>,
           lowerLid = \<lparr> px = 0.4 + headXShift, py = 0.48 + headYShift + blinkOffset * 0.2 \<rparr>,
           innerCorner = \<lparr> px = 0.46 + headXShift, py = 0.45 + headYShift \<rparr>,
           outerCorner = \<lparr> px = 0.34 + headXShift, py = 0.45 + headYShift \<rparr> \<rparr>)"

definition simRightEye :: "DemoState \<Rightarrow> real \<Rightarrow> real \<Rightarrow> real \<Rightarrow> real \<Rightarrow> EyeLandmarks" where
  "simRightEye p t rx ry rb =
     (let headXShift = sim_yaw p t * 0.005;
          headYShift = sim_pitch p t * 0.005;
          irisXShift = sim_gazeX p t rx * 0.08;
          irisYShift = sim_gazeY p t ry * 0.08;
          lidTrackY = irisYShift * 0.5;
          blinkOffset = (1 - sim_openness p t ry rb) * 0.035
      in \<lparr> pupil = \<lparr> px = 0.6 + headXShift + irisXShift, py = 0.45 + headYShift + irisYShift \<rparr>,
           upperLid = \<lparr> px = 0.6 + headXShift,
                        py = 0.42 + headYShift + lidTrackY + blinkOffset + asymmetry p * 0.02 \<rparr>,
           lowerLid = \<lparr> px = 0.6 + headXShift, py = 0.48 + headYShift + blinkOffset * 0.2 \<rparr>,
           innerCorner = \<lparr> px = 0.54 + headXShift, py = 0.45 + headYShift \<rparr>,
           outerCorner = \<lparr> px = 0.66 + headXShift, py = 0.45 + headYShift \<rparr> \<rparr>)"

definition simulateData :: "DemoState \<Rightarrow> real \<Rightarrow> real \<Rightarrow> real \<Rightarrow> real \<Rightarrow> FaceData" where
  "simulateData p t rx ry rb =
     \<lparr> yaw = sim_yaw p t,
       pitch = sim_pitch p t,
       roll = sim_roll p t,
       eyeOpennessLeft = sim_openness p t ry rb,
       eyeOpennessRight = sim_openness p t ry rb * (1.0 - asymmetry p),
       mouthSymmetry = 0.95 - asymmetry p,
       gazeX = sim_gazeX p t rx,
       gazeY = sim_gazeY p t ry,
       blinkDetected = sim_isBlinking p t rb,
       confidence = 0.98,
       leftEye = Some (simLeftEye p t rx ry rb),
       rightEye = Some (simRightEye p t rx ry rb) \<rparr>"

subsection \<open>The detector adapter (\<^verbatim>\<open>processFrame\<close>, lines 235--322)\<close>

text \<open>What one call of the external detector gives: it throws, or it returns the landmark
  lists of the faces found (\<^verbatim>\<open>faceLandmarks\<close>, possibly undefined) and the blendshape
  categories of each face (\<^verbatim>\<open>faceBlendshapes\<close>, possibly undefined), a category being a
  name and a score.\<close>

datatype detect_result =
  Threw
| Returned "Point list list option" "(string \<times> real) list list option"

record frame_input =
  modelReady :: bool
  currentTime :: real
  detectForVideo :: detect_result

record tracker =
  faceData :: FaceData
  blinkCount :: nat
  lastBlinkState :: bool
  lastVideoTime :: real
  lastProcessTime :: real
  prevData :: FaceData

datatype js_error = TypeError

text \<open>\<^verbatim>\<open>blendshapes?.find(c => c.categoryName === name)?.score || 0\<close>: the score of the first
  category of that name, and 0 when there is none (or no blendshapes at all).\<close>

definition blendScore :: "(string \<times> real) list list option \<Rightarrow> string \<Rightarrow> real" where
  "blendScore faceBlendshapes name =
     (case faceBlendshapes of
        None \<Rightarrow> 0
      | Some [] \<Rightarrow> 0
      | Some (categories # _) \<Rightarrow>
          (case map_of categories name of None \<Rightarrow> 0 | Some sc \<Rightarrow> sc))"

definition isBlinkingOf :: "real \<Rightarrow> real \<Rightarrow> bool" where
  "isBlinkingOf blinkLeftScore blinkRightScore =
     (let avgBlinkScore = (blinkLeftScore + blinkRightScore) / 2;
          eyeDiff = \<bar>blinkLeftScore - blinkRightScore\<bar>;
          isStrongBlink = avgBlinkScore > 0.5;
          isSubtleBlink = avgBlinkScore > 0.2 \<and> eyeDiff < 0.2
                          \<and> blinkLeftScore > 0.1 \<and> blinkRightScore > 0.1
      in isStrongBlink \<or> isSubtleBlink)"

definition rawLeftEye :: "Point list \<Rightarrow> EyeLandmarks" where
  "rawLeftEye landmarks =
     \<lparr> pupil = \<lparr> px = px (landmarks ! 468), py = py (landmarks ! 468) \<rparr>,
       upperLid = \<lparr> px = px (landmarks ! 159), py = py (landmarks ! 159) \<rparr>,
       lowerLid = \<lparr> px = px (landmarks ! 145), py = py (landmarks ! 145) \<rparr>,
       innerCorner = \<lparr> px = px (landmarks ! 133), py = py (landmarks ! 133) \<rparr>,
       outerCorner = \<lparr> px = px (landmarks ! 33), py = py (landmarks ! 33) \<rparr> \<rparr>"

definition rawRightEye :: "Point list \<Rightarrow> EyeLandmarks" where
  "rawRightEye landmarks =
     \<lparr> pupil = \<lparr> px = px (landmarks ! 473), py = py (landmarks ! 473) \<rparr>,
       upperLid = \<lparr> px = px (landmarks ! 386), py = py (landmarks ! 386) \<rparr>,
       lowerLid = \<lparr> px = px (landmarks ! 374), py = py (landmarks ! 374) \<rparr>,
       innerCorner = \<lparr> px = px (landmarks ! 362), py = py (landmarks ! 362) \<rparr>,
       outerCorner = \<lparr> px = px (landmarks ! 263), py = py (landmarks ! 263) \<rparr> \<rparr>"

definition rawYaw :: "Point list \<Rightarrow> real" where
  "rawYaw landmarks =
     (let nose = landmarks ! 1; leftCheek = landmarks ! 234; rightCheek = landmarks ! 454;
          midPointX = (px rightCheek + px leftCheek) / 2
      in (px nose - midPointX) * 200)"

definition rawPitch :: "Point list \<Rightarrow> real" where
  "rawPitch landmarks =
     (let nose = landmarks ! 1;
          eyesMidY = (py (landmarks ! 159) + py (landmarks ! 386)) / 2
      in (py nose - eyesMidY - 0.1) * 200)"

text \<open>The branch taken when a face is found. The largest landmark index read is 473; on a
  shorter list the source reads a property of \<^verbatim>\<open>undefined\<close>, which throws a
  \<^verbatim>\<open>TypeError\<close> that nothing catches.\<close>

definition smoothedData ::
  "FaceData \<Rightarrow> Point list \<Rightarrow> (string \<times> real) list list option \<Rightarrow> js_error + FaceData" where
  "smoothedData prev landmarks faceBlendshapes =
     (if length landmarks \<le> 473 then Inl TypeError
      else
        (let blinkLeftScore = blendScore faceBlendshapes ''eyeBlinkLeft'';
             blinkRightScore = blendScore faceBlendshapes ''eyeBlinkRight'';
             nose = landmarks ! 1
         in Inr \<lparr> yaw = lerp (yaw prev) (rawYaw landmarks) POSE_SMOOTHING,
                  pitch = lerp (pitch prev) (rawPitch landmarks) POSE_SMOOTHING,
                  roll = 0,
                  eyeOpennessLeft = 1.0 - blinkLeftScore,
                  eyeOpennessRight = 1.0 - blinkRightScore,
                  mouthSymmetry = 0.95,
                  gazeX = lerp (gazeX prev) ((px nose - 0.5) * 2) POSE_SMOOTHING,
                  gazeY = lerp (gazeY prev) ((py nose - 0.5) * 2) POSE_SMOOTHING,
                  blinkDetected = isBlinkingOf blinkLeftScore blinkRightScore,
                  confidence = 0.99,
                  leftEye = Some (smoothEye (leftEye prev) (rawLeftEye landmarks) LANDMARK_SMOOTHING),
                  rightEye = Some (smoothEye (rightEye prev) (rawRightEye landmarks) LANDMARK_SMOOTHING) \<rparr>))"

text \<open>\<^verbatim>\<open>processFrame\<close> reads \<^verbatim>\<open>prevDataRef\<close> and \<^verbatim>\<open>lastVideoTime\<close> and may write the latter: it
  returns the frame (or the uncaught error) and the new \<^verbatim>\<open>lastVideoTime\<close>.\<close>

definition processFrame :: "tracker \<Rightarrow> frame_input \<Rightarrow> (js_error + FaceData) \<times> real" where
  "processFrame tr inp =
     (if \<not> modelReady inp then (Inr ((prevData tr)\<lparr>confidence := 0\<rparr>), lastVideoTime tr)
      else if currentTime inp = lastVideoTime tr then (Inr (prevData tr), lastVideoTime tr)
      else
        (case detectForVideo inp of
           Threw \<Rightarrow> (Inr (prevData tr), currentTime inp)
         | Returned faceLandmarks faceBlendshapes \<Rightarrow>
             (case faceLandmarks of
                Some (landmarks # _) \<Rightarrow>
                  (smoothedData (prevData tr) landmarks faceBlendshapes, currentTime inp)
              | _ \<Rightarrow>
                  (Inr ((prevData tr)\<lparr>confidence := 0.3, blinkDetected := False\<rparr>),
                   currentTime inp))))"

subsection \<open>The main loop (lines 378--403)\<close>

text \<open>Lines 394--401: what the loop does with the frame it obtained.\<close>

definition deliver :: "tracker \<Rightarrow> FaceData \<Rightarrow> tracker" where
  "deliver tr data =
     tr\<lparr> prevData := data,
         blinkCount := (if blinkDetected data \<and> \<not> lastBlinkState tr
                        then blinkCount tr + 1 else blinkCount tr),
         lastBlinkState := blinkDetected data,
         faceData := data \<rparr>"

record tick =
  tick_time :: real
  tick_input :: frame_input
  rand_x :: real
  rand_y :: real
  rand_blink :: real

text \<open>One animation tick. \<open>None\<close>: the tick threw, so the loop did not schedule itself
  again.\<close>

definition loop :: "RehabMode \<Rightarrow> DemoState \<Rightarrow> tracker \<Rightarrow> tick \<Rightarrow> tracker option" where
  "loop mode demoProfile tr tk =
     (if mode = REAL \<and> tick_time tk - lastProcessTime tr < 32 then Some tr
      else
        (let tr1 = tr\<lparr>lastProcessTime := tick_time tk\<rparr>
         in if mode = REAL then
              (case processFrame tr1 (tick_input tk) of
                 (Inl e, vt) \<Rightarrow> None
               | (Inr data, vt) \<Rightarrow> Some (deliver (tr1\<lparr>lastVideoTime := vt\<rparr>) data))
            else Some (deliver tr1
                   (simulateData demoProfile (tick_time tk) (rand_x tk) (rand_y tk) (rand_blink tk)))))"

definition initialTracker :: tracker where
  "initialTracker =
     \<lparr> faceData = DEFAULT_FACE_DATA, blinkCount = 0, lastBlinkState = False,
       lastVideoTime = - 1, lastProcessTime = 0, prevData = DEFAULT_FACE_DATA \<rparr>"

subsection \<open>The exercise session (\<^verbatim>\<open>RehabExercise.tsx\<close>)\<close>

record props =
  mode :: RehabMode
  exerciseType :: ExerciseType
  durationSeconds :: int
  demoProfile :: DemoState

record target_dot =
  dot_x :: real
  dot_y :: real
  visible :: bool

text \<open>The component's state: its own \<^verbatim>\<open>useState\<close> cells and the state of the
  \<^verbatim>\<open>useFaceTracker\<close> hook (\<open>hook\<close>), whose \<^verbatim>\<open>blinkCount\<close> and \<^verbatim>\<open>faceData\<close> it reads and whose
  \<^verbatim>\<open>setBlinkCount\<close> it calls. \<^verbatim>\<open>score\<close> starts at 0 and is only ever incremented by one or set
  to the blink count, so it is a natural number; the durations are whole seconds.\<close>

record session =
  isPlaying :: bool
  isFinished :: bool
  timeLeft :: int
  score :: nat
  sessionBlinks :: nat
  headStabilityScore :: real
  demoState :: DemoState
  target :: target_dot
  targetMoveTimer :: nat
  hook :: tracker

definition initialSession :: "props \<Rightarrow> session" where
  "initialSession P =
     \<lparr> isPlaying = False, isFinished = False, timeLeft = durationSeconds P,
       score = 0, sessionBlinks = 0, headStabilityScore = 100,
       demoState = demoProfile P,
       target = \<lparr> dot_x = 50, dot_y = 50, visible = True \<rparr>,
       targetMoveTimer = 0, hook = initialTracker \<rparr>"

text \<open>The effect \<^verbatim>\<open>Sync blink count\<close> (lines 45--49).\<close>

definition syncBlinks :: "session \<Rightarrow> session" where
  "syncBlinks s = (if isPlaying s then s\<lparr>sessionBlinks := blinkCount (hook s)\<rparr> else s)"

definition finishSession :: "session \<Rightarrow> session" where
  "finishSession s = s\<lparr>isPlaying := False, isFinished := True\<rparr>"

text \<open>One firing of the 1000 ms timer (lines 52--66); the interval exists only while the
  session is playing and not finished.\<close>

definition timerTick :: "session \<Rightarrow> session" where
  "timerTick s =
     (if \<not> isPlaying s \<or> isFinished s then s
      else if timeLeft s \<le> 1 then (finishSession s)\<lparr>timeLeft := 0\<rparr>
      else s\<lparr>timeLeft := timeLeft s - 1\<rparr>)"

definition restartSession :: "props \<Rightarrow> session \<Rightarrow> session" where
  "restartSession P s =
     s\<lparr> isFinished := False,
        isPlaying := False,
        timeLeft := durationSeconds P,
        score := 0,
        hook := (hook s)\<lparr>blinkCount := 0\<rparr>,
        sessionBlinks := 0,
        headStabilityScore := 100,
        target := \<lparr> dot_x = 50, dot_y = 50, visible = True \<rparr> \<rparr>"

text \<open>One firing of the 100 ms game loop (lines 86--127); \<open>r1\<close> and \<open>r2\<close> are the two
  random draws of the new dot position.\<close>

definition gameLoop :: "props \<Rightarrow> session \<Rightarrow> real \<Rightarrow> real \<Rightarrow> session" where
  "gameLoop P s r1 r2 =
     (if \<not> isPlaying s \<or> isFinished s then s
      else
        (case exerciseType P of
           FOLLOW_DOT \<Rightarrow>
             (let s1 = (if targetMoveTimer s > 20
                        then s\<lparr> target := \<lparr> dot_x = 10 + r1 * 80, dot_y = 15 + r2 * 70,
                                            visible = True \<rparr>,
                                targetMoveTimer := 0 \<rparr>
                        else s\<lparr> targetMoveTimer := targetMoveTimer s + 1 \<rparr>)
              in if confidence (faceData (hook s)) > 0.5 then s1\<lparr>score := score s + 1\<rparr> else s1)
         | BLINK_TRAINING \<Rightarrow> s\<lparr>score := sessionBlinks s\<rparr>
         | HEAD_STABILITY \<Rightarrow>
             (let deviation = \<bar>yaw (faceData (hook s))\<bar> + \<bar>pitch (faceData (hook s))\<bar>
              in if deviation > 5
                 then s\<lparr>headStabilityScore := max 0 (headStabilityScore s - 0.2)\<rparr>
                 else s\<lparr>headStabilityScore := min 100 (headStabilityScore s + 0.05)\<rparr>)))"

definition togglePlay :: "props \<Rightarrow> session \<Rightarrow> session" where
  "togglePlay P s =
     (if isFinished s then restartSession P s
      else s\<lparr>isPlaying := \<not> isPlaying s\<rparr>)"

text \<open>The three phases of the specification, read off the two flags.\<close>

datatype phase = Idle | Playing | Finished

definition phase_of :: "session \<Rightarrow> phase" where
  "phase_of s = (if isFinished s then Finished else if isPlaying s then Playing else Idle)"

subsection \<open>The clinical analysis (\<^verbatim>\<open>getDetailedAnalysis\<close>, lines 154--205)\<close>

record SessionAnalysis =
  exerciseLabel :: string
  duration :: int
  reportScore :: int
  clinicalValue :: int
  clinicalUnit :: string
  status :: Status
  recommendation :: string
  report_notes :: "string list"

text \<open>\<^verbatim>\<open>exerciseType.replace('_', ' ')\<close>.\<close>

fun exerciseName :: "ExerciseType \<Rightarrow> string" where
  "exerciseName FOLLOW_DOT = ''FOLLOW DOT''"
| "exerciseName BLINK_TRAINING = ''BLINK TRAINING''"
| "exerciseName HEAD_STABILITY = ''HEAD STABILITY''"

definition buildReport ::
  "props \<Rightarrow> session \<Rightarrow> int \<Rightarrow> string \<Rightarrow> Status \<Rightarrow> string \<Rightarrow> string list \<Rightarrow> SessionAnalysis" where
  "buildReport P s val unit st rec nts =
     \<lparr> exerciseLabel = exerciseName (exerciseType P),
       duration = durationSeconds P,
       reportScore = js_round (real (score s)),
       clinicalValue = val,
       clinicalUnit = unit,
       status = st,
       recommendation = rec,
       report_notes = nts \<rparr>"

text \<open>The demonstration table (lines 168--185).\<close>

definition demoReport :: "props \<Rightarrow> session \<Rightarrow> SessionAnalysis" where
  "demoReport P s =
     (case exerciseType P of
        BLINK_TRAINING \<Rightarrow>
          (if demoState s = LOW then
             buildReport P s 6 ''BPM'' WARNING
               ''Blink rate is critically low. Blink awareness exercises recommended.''
               [''Severe Dry Eye Risk'', ''Incomplete Blink Pattern'']
           else if demoState s = HIGH then
             buildReport P s 42 ''BPM'' WARNING
               ''High frequency blinking detected. Monitor for blepharospasm.''
               [''Excessive Blinking'', ''Possible Irritation'', ''Anxiety Indicated'']
           else
             buildReport P s 16 ''BPM'' GOOD
               ''Normal spontaneous blink rate observed.''
               [''Healthy tear film'', ''Good rhythm''])
      | FOLLOW_DOT \<Rightarrow>
          (if demoState s = LOW then
             buildReport P s 45 ''% Accuracy'' CRITICAL
               ''Significant gaze instability detected. Vestibular consult advised.''
               [''Tracking Latency'', ''Saccadic Intrusion'', ''Poor Fixation'']
           else if demoState s = HIGH then
             buildReport P s 98 ''% Accuracy'' GOOD
               ''Oculomotor control is excellent. No deficits found.''
               [''Smooth Pursuit'', ''Accurate Saccades'']
           else
             buildReport P s 88 ''% Accuracy'' GOOD
               ''Tracking falls within normal clinical limits.''
               [''Good Oculomotor Control''])
      | HEAD_STABILITY \<Rightarrow>
          (if demoState s = LOW then
             buildReport P s 35 ''% Stability'' CRITICAL
               ''Poor cephalic control. Risk of cervicogenic dizziness.''
               [''Postural Drift'', ''Tremor Detected'', ''Neck Stiffness'']
           else if demoState s = HIGH then
             buildReport P s 96 ''% Stability'' GOOD
               ''Excellent vestibulo-collic reflex function.''
               [''High Stability'', ''No Tremor'']
           else
             buildReport P s 82 ''% Stability'' GOOD
               ''Head stability is adequate for daily tasks.''
               [''Normal Range of Motion'']))"

text \<open>\<^verbatim>\<open>(durationSeconds - timeLeft) / 60 || 1\<close>: the quotient, as a double, and 1 where the
  quotient is falsy, which for a quotient of two finite numbers means zero.\<close>

definition durationMins :: "props \<Rightarrow> session \<Rightarrow> real" where
  "durationMins P s =
     (let q = fl (real_of_int (durationSeconds P - timeLeft s) / 60)
      in if q = 0 then 1 else q)"

text \<open>\<^verbatim>\<open>Math.min(100, Math.round((score / ((durationSeconds - timeLeft) * 10)) * 100)) || 0\<close>:
  a division and a multiplication of doubles, then the rounding to an integer.
  With no time elapsed the division is by zero: a positive score gives \<^verbatim>\<open>Infinity\<close>, which
  \<^verbatim>\<open>Math.min\<close> caps at 100, and a zero score gives \<^verbatim>\<open>NaN\<close>, which \<^verbatim>\<open>||\<close> replaces by 0.\<close>

definition efficiency :: "props \<Rightarrow> session \<Rightarrow> int" where
  "efficiency P s =
     (let elapsed = durationSeconds P - timeLeft s
      in if elapsed * 10 = 0 then (if score s = 0 then 0 else 100)
         else min 100 (js_round (fl (fl (real (score s) / real_of_int (elapsed * 10)) * 100))))"

definition measuredReport :: "props \<Rightarrow> session \<Rightarrow> SessionAnalysis" where
  "measuredReport P s =
     (case exerciseType P of
        BLINK_TRAINING \<Rightarrow>
          (let bpm = js_round (fl (real (sessionBlinks s) / durationMins P s));
               st0 = (if bpm < 10 then WARNING else GOOD);
               st = (if bpm > 30 then WARNING else st0)
           in buildReport P s bpm ''BPM'' st
                (if st = GOOD then ''Healthy blink patterns.'' else ''Abnormal blink rate detected.'')
                (if bpm < 10 then [''Possible Dry Eye''] else []))
      | HEAD_STABILITY \<Rightarrow>
          (let stabScore = js_round (headStabilityScore s);
               st = (if stabScore < 60 then CRITICAL else if stabScore < 80 then WARNING else GOOD)
           in buildReport P s stabScore ''% Stability'' st ''Stabilization training ongoing.'' [])
      | FOLLOW_DOT \<Rightarrow>
          (let st = (if efficiency P s < 50 then CRITICAL else GOOD)
           in buildReport P s (efficiency P s) ''% Accuracy'' st
                ''Gaze control assessment complete.'' []))"

definition getDetailedAnalysis :: "props \<Rightarrow> session \<Rightarrow> SessionAnalysis" where
  "getDetailedAnalysis P s = (if mode P = DEMO then demoReport P s else measuredReport P s)"

text \<open>\<^verbatim>\<open>const analysis = isFinished ? getDetailedAnalysis() : null\<close>.\<close>

definition analysis :: "props \<Rightarrow> session \<Rightarrow> SessionAnalysis option" where
  "analysis P s = (if isFinished s then Some (getDetailedAnalysis P s) else None)"

subsection \<open>Runs of the pipeline\<close>

text \<open>A sequence of animation ticks; the run stops at a tick that throws.\<close>

fun run_ticks :: "RehabMode \<Rightarrow> DemoState \<Rightarrow> tracker \<Rightarrow> tick list \<Rightarrow> tracker option" where
  "run_ticks m p tr [] = Some tr"
| "run_ticks m p tr (tk # tks) =
     (case loop m p tr tk of None \<Rightarrow> None | Some tr' \<Rightarrow> run_ticks m p tr' tks)"

text \<open>A sequence of frames handed to lines 394--401, in arrival order.\<close>

definition feed :: "tracker \<Rightarrow> FaceData list \<Rightarrow> tracker" where
  "feed tr frames = foldl deliver tr frames"

text \<open>A sequence of 100 ms game ticks, each with the frame the hook shows at that moment
  and its two random draws.\<close>

fun run_game :: "props \<Rightarrow> session \<Rightarrow> (FaceData \<times> real \<times> real) list \<Rightarrow> session" where
  "run_game P s [] = s"
| "run_game P s ((f, r1, r2) # rest) =
     run_game P (gameLoop P (s\<lparr>hook := (hook s)\<lparr>faceData := f\<rparr>\<rparr>) r1 r2) rest"

subsection \<open>Properties named by the specification\<close>

text \<open>The maximal runs of equal neighbours of a list, in order: \<open>runs [F,F,T,T,T,F,T]\<close> is
  \<open>[[F,F],[T,T,T],[F],[T]]\<close>.\<close>

fun runs :: "'a list \<Rightarrow> 'a list list" where
  "runs [] = []"
| "runs (v # vs) =
     (case runs vs of
        [] \<Rightarrow> [[v]]
      | r # rs \<Rightarrow> if hd r = v then (v # r) # rs else [v] # r # rs)"

text \<open>The number of maximal contiguous runs of frames with \<^verbatim>\<open>blinkDetected = true\<close>.\<close>

definition blink_runs :: "FaceData list \<Rightarrow> nat" where
  "blink_runs frames = length (filter (\<lambda>r. True \<in> set r) (runs (map blinkDetected frames)))"

text \<open>The blinks-per-minute formula in the specification's words, in the same double
  arithmetic: the elapsed minutes are floored at one.\<close>

definition spec_elapsedMinutes :: "int \<Rightarrow> real" where
  "spec_elapsedMinutes elapsedSeconds = max 1 (fl (real_of_int elapsedSeconds / 60))"

definition spec_bpm :: "nat \<Rightarrow> int \<Rightarrow> int" where
  "spec_bpm blinks elapsedSeconds =
     js_round (fl (real blinks / spec_elapsedMinutes elapsedSeconds))"

text \<open>The ranges of section 3 of the specification.\<close>

definition in_unit :: "real \<Rightarrow> bool" where
  "in_unit v = (0 \<le> v \<and> v \<le> 1)"

definition frame_ok :: "FaceData \<Rightarrow> bool" where
  "frame_ok f =
     (in_unit (confidence f) \<and> in_unit (eyeOpennessLeft f) \<and> in_unit (eyeOpennessRight f)
      \<and> in_unit (mouthSymmetry f))"

definition gaze_ok :: "FaceData \<Rightarrow> bool" where
  "gaze_ok f = (- 1 \<le> gazeX f \<and> gazeX f \<le> 1 \<and> - 1 \<le> gazeY f \<and> gazeY f \<le> 1)"

definition stability_ok :: "session \<Rightarrow> bool" where
  "stability_ok s = (0 \<le> headStabilityScore s \<and> headStabilityScore s \<le> 100)"

text \<open>What the specification says of the detector's output: blendshape scores lie in
  \<open>[0,1]\<close> (glossary), and landmarks are normalized image coordinates in \<open>[0,1]\<close>
  (section 3); the latter is needed here of the nose, landmark 1.\<close>

definition scores_in_unit :: "detect_result \<Rightarrow> bool" where
  "scores_in_unit d =
     (case d of
        Threw \<Rightarrow> True
      | Returned faceLandmarks faceBlendshapes \<Rightarrow>
          (case faceBlendshapes of
             None \<Rightarrow> True
           | Some bs \<Rightarrow> list_all (list_all (\<lambda>c. in_unit (snd c))) bs))"

definition nose_in_image :: "detect_result \<Rightarrow> bool" where
  "nose_in_image d =
     (case d of
        Threw \<Rightarrow> True
      | Returned faceLandmarks faceBlendshapes \<Rightarrow>
          (case faceLandmarks of
             Some (landmarks # _) \<Rightarrow>
               1 < length landmarks \<and> in_unit (px (landmarks ! 1)) \<and> in_unit (py (landmarks ! 1))
           | _ \<Rightarrow> True))"

text \<open>A value \<^verbatim>\<open>Math.random()\<close> can return.\<close>

definition is_random :: "real \<Rightarrow> bool" where
  "is_random r = (0 \<le> r \<and> r < 1)"

subsection \<open>Concrete inputs\<close>

text \<open>A face of 478 landmarks in the middle of the image, the nose moved to the right.\<close>

definition centre :: Point where
  "centre = \<lparr> px = 0.5, py = 0.5 \<rparr>"

definition turned_face :: "Point list" where
  "turned_face = (replicate 478 centre)[1 := \<lparr> px = 0.6, py = 0.5 \<rparr>]"

definition turned_input :: frame_input where
  "turned_input =
     \<lparr> modelReady = True, currentTime = 0,
       detectForVideo = Returned (Some [turned_face]) (Some [[(''eyeBlinkLeft'', 0.1), (''eyeBlinkRight'', 0.1)]]) \<rparr>"

definition noface_input :: frame_input where
  "noface_input = \<lparr> modelReady = True, currentTime = 0, detectForVideo = Returned (Some []) None \<rparr>"

text \<open>Frames that differ from the default frame in the blink flag only.\<close>

definition blink_frames :: "bool list \<Rightarrow> FaceData list" where
  "blink_frames bs = map (\<lambda>b. DEFAULT_FACE_DATA\<lparr>blinkDetected := b\<rparr>) bs"

text \<open>A session played to the end of its countdown: a measured session of the given
  kind and duration, in its last second, with the given counters, after the timer fires.\<close>

definition measured_props :: "ExerciseType \<Rightarrow> int \<Rightarrow> props" where
  "measured_props kind secs =
     \<lparr> mode = REAL, exerciseType = kind, durationSeconds = secs, demoProfile = HEALTHY \<rparr>"

definition played_out :: "ExerciseType \<Rightarrow> int \<Rightarrow> nat \<Rightarrow> nat \<Rightarrow> session" where
  "played_out kind secs sc blinks =
     timerTick ((initialSession (measured_props kind secs))
                  \<lparr> isPlaying := True, timeLeft := 1, score := sc, sessionBlinks := blinks \<rparr>)"

text \<open>A face whose nose landmark lies outside the image, to the right.\<close>

definition offscreen_face :: "Point list" where
  "offscreen_face = (replicate 478 centre)[1 := \<lparr> px = 1.6, py = 0.5 \<rparr>]"

definition offscreen_input :: frame_input where
  "offscreen_input =
     \<lparr> modelReady = True, currentTime = 0, detectForVideo = Returned (Some [offscreen_face]) None \<rparr>"

text \<open>An animation tick at 100 ms that shows the turned face.\<close>

definition turned_tick :: tick where
  "turned_tick = \<lparr> tick_time = 100, tick_input = turned_input,
                    rand_x = 0.5, rand_y = 0.5, rand_blink = 0.5 \<rparr>"

text \<open>A frame with the head turned by 10 degrees, and a session that has been started.\<close>

definition moving_head :: FaceData where
  "moving_head = DEFAULT_FACE_DATA\<lparr>yaw := 10\<rparr>"

definition playing :: "props \<Rightarrow> session" where
  "playing P = (initialSession P)\<lparr>isPlaying := True\<rparr>"

section \<open>Rounding to the nearest double\<close>

lemma exponent_iff:
  assumes "x \<noteq> 0"
  shows "exponent x = e \<longleftrightarrow> 2 powi e \<le> \<bar>x\<bar> \<and> \<bar>x\<bar> < 2 powi (e + 1)"
proof -
  have "\<lfloor>log 2 \<bar>x\<bar>\<rfloor> = e \<longleftrightarrow>
          2 powr real_of_int e \<le> \<bar>x\<bar> \<and> \<bar>x\<bar> < 2 powr real_of_int (e + 1)"
    using assms floor_log_eq_powr_iff[of "\<bar>x\<bar>" 2 e] by simp
  moreover have p: "(2::real) powr real_of_int k = 2 powi k" for k
    by (intro powr_real_of_int') simp_all
  moreover have "(2::real) powr (real_of_int e + 1) = 2 powi (e + 1)"
    using p[of "e + 1"] by simp
  ultimately show ?thesis by (simp add: exponent_def)
qed

lemma exponent_eqI:
  assumes "2 powi e \<le> \<bar>x\<bar>" and "\<bar>x\<bar> < 2 powi (e + 1)"
  shows "exponent x = e"
proof -
  have "0 < (2::real) powi e" by simp
  with assms(1) have "0 < \<bar>x\<bar>" by linarith
  then have "x \<noteq> 0" by simp
  with assms show ?thesis by (simp add: exponent_iff)
qed

lemma exponent_bounds:
  assumes "x \<noteq> 0"
  shows "2 powi exponent x \<le> \<bar>x\<bar>" and "\<bar>x\<bar> < 2 powi (exponent x + 1)"
  using exponent_iff[OF assms, of "exponent x"] by simp_all

lemma exponent_half: "x \<noteq> 0 \<Longrightarrow> exponent (x / 2) + 1 = exponent x"
proof -
  assume nz: "x \<noteq> 0"
  have "(2::real) powi (exponent x - 1) * 2 = 2 powi exponent x"
    by (rule power_int_minus_mult) simp
  moreover have "(2::real) powi (exponent x - 1 + 1) = 2 powi exponent x" by simp
  ultimately have "2 powi (exponent x - 1) \<le> \<bar>x / 2\<bar>" "\<bar>x / 2\<bar> < 2 powi (exponent x - 1 + 1)"
    using exponent_bounds[OF nz] power_int_add_1[of "2::real" "exponent x"]
    by (simp_all add: field_simps)
  then have "exponent (x / 2) = exponent x - 1" by (rule exponent_eqI)
  then show ?thesis by simp
qed

lemma exponent_double: "x \<noteq> 0 \<Longrightarrow> exponent (x * 2) - 1 = exponent x"
  using exponent_half[of "x * 2"] by simp

lemma exponent_unit: "1 \<le> \<bar>x\<bar> \<Longrightarrow> \<bar>x\<bar> < 2 \<Longrightarrow> exponent x = 0"
  by (rule exponent_eqI) simp_all

text \<open>The exponent computes by halving and doubling.\<close>

lemma exponent_code [code]:
  "exponent x =
     (if x = 0 then 0
      else if 2 \<le> \<bar>x\<bar> then exponent (x / 2) + 1
      else if \<bar>x\<bar> < 1 then exponent (x * 2) - 1
      else 0)"
proof (cases "x = 0")
  case True
  then show ?thesis by (simp add: exponent_def log_def)
next
  case False
  then show ?thesis
    using exponent_half[of x] exponent_double[of x] exponent_unit[of x] by auto
qed

lemma round_even_near: "\<bar>real_of_int (round_even v) - v\<bar> \<le> 1 / 2"
  unfolding round_even_def Let_def by (auto; linarith)

lemma round_even_of_int [simp]: "round_even (of_int k) = k"
  by (simp add: round_even_def)

lemma fl_eval:
  assumes "2 powi e \<le> \<bar>x\<bar>" and "\<bar>x\<bar> < 2 powi (e + 1)" and "- 1022 \<le> e"
  shows "fl x = of_int (round_even (x / 2 powi (e - 52))) * 2 powi (e - 52)"
proof -
  have e: "exponent x = e" using assms(1,2) by (rule exponent_eqI)
  have "0 < (2::real) powi e" by simp
  with assms(1) have "0 < \<bar>x\<bar>" by linarith
  then have "x \<noteq> 0" by simp
  then show ?thesis using assms(3) by (simp add: fl_def quantum_def e max_def)
qed

lemma two_powi_less_iff: "(2::real) powi m < 2 powi n \<longleftrightarrow> m < n"
proof
  assume "(2::real) powi m < 2 powi n"
  show "m < n"
  proof (rule ccontr)
    assume "\<not> m < n"
    then have "(2::real) powi n \<le> 2 powi m" by (intro power_int_increasing) simp_all
    with \<open>(2::real) powi m < 2 powi n\<close> show False by simp
  qed
next
  assume "m < n"
  then show "(2::real) powi m < 2 powi n" by (intro power_int_strict_increasing) simp_all
qed

lemma two_powi_le_iff: "(2::real) powi m \<le> 2 powi n \<longleftrightarrow> m \<le> n"
  using two_powi_less_iff[of n m] by (simp add: not_less [symmetric])

lemma normal_exponent:
  assumes "2 powi (- 1022) \<le> \<bar>x\<bar>"
  shows "- 1022 \<le> exponent x" and "quantum x = 2 powi (exponent x - 52)" and "x \<noteq> 0"
proof -
  have "0 < (2::real) powi (- 1022)" by (rule zero_less_power_int) simp
  with assms have "0 < \<bar>x\<bar>" by linarith
  then show nz: "x \<noteq> 0" by simp
  from exponent_bounds(2)[OF nz] assms have "(2::real) powi (- 1022) < 2 powi (exponent x + 1)"
    by linarith
  then have "- 1022 < exponent x + 1" by (simp only: two_powi_less_iff)
  then show "- 1022 \<le> exponent x" by simp
  then show "quantum x = 2 powi (exponent x - 52)" by (simp add: quantum_def max_def)
qed

lemma quantum_pos: "0 < quantum x"
  by (simp add: quantum_def)

lemma fl_error: "\<bar>fl x - x\<bar> \<le> quantum x / 2"
proof (cases "x = 0")
  case True
  then show ?thesis using quantum_pos[of x] by (simp add: fl_def)
next
  case False
  let ?q = "quantum x"
  let ?m = "x / ?q"
  have q: "0 < ?q" by (rule quantum_pos)
  have "fl x - x = (of_int (round_even ?m) - ?m) * ?q"
    using False q by (simp add: fl_def algebra_simps)
  then have "\<bar>fl x - x\<bar> = \<bar>of_int (round_even ?m) - ?m\<bar> * ?q"
    using q by (simp add: abs_mult)
  also have "\<dots> \<le> (1 / 2) * ?q"
    using round_even_near[of ?m] q by (intro mult_right_mono) simp_all
  finally show ?thesis by simp
qed

lemma mantissa_lower:
  assumes "2 powi (- 1022) \<le> \<bar>x\<bar>"
  shows "2 ^ 52 \<le> \<bar>x / quantum x\<bar>"
proof -
  note n = normal_exponent[OF assms]
  have "(2::real) powi exponent x = 2 powi (exponent x - 52) * 2 powi 52"
    using power_int_add[of "2::real" "exponent x - 52" 52] by simp
  then have "(2::real) ^ 52 * quantum x = 2 powi exponent x"
    by (simp add: n(2))
  also have "\<dots> \<le> \<bar>x\<bar>" by (rule exponent_bounds(1)[OF n(3)])
  finally have "2 ^ 52 \<le> \<bar>x\<bar> / quantum x"
    using quantum_pos[of x] by (simp add: pos_le_divide_eq)
  then show ?thesis using quantum_pos[of x] by (simp add: abs_divide)
qed

lemma fl_nonzero:
  assumes "2 powi (- 1022) \<le> \<bar>x\<bar>"
  shows "fl x \<noteq> 0"
proof -
  let ?m = "x / quantum x"
  have "(1::real) \<le> 2 ^ 52 - 1 / 2" by simp
  also have "\<dots> \<le> \<bar>?m\<bar> - 1 / 2" using mantissa_lower[OF assms] by linarith
  finally have "0 < \<bar>real_of_int (round_even ?m)\<bar>"
    using round_even_near[of ?m] by linarith
  then have "round_even ?m \<noteq> 0" by auto
  then show ?thesis
    using normal_exponent(3)[OF assms] quantum_pos[of x] by (simp add: fl_def)
qed

lemma fl_lower:
  assumes "2 powi (- 1022) \<le> x"
  shows "2 powi exponent x \<le> fl x"
proof -
  have pos: "0 < x"
  proof -
    have "0 < (2::real) powi (- 1022)" by (rule zero_less_power_int) simp
    with assms show ?thesis by linarith
  qed
  then have a: "2 powi (- 1022) \<le> \<bar>x\<bar>" using assms by simp
  note n = normal_exponent[OF a]
  let ?m = "x / quantum x"
  have "4503599627370496 \<le> ?m"
    using mantissa_lower[OF a] pos quantum_pos[of x] by (simp add: abs_divide)
  then have "4503599627370496 - 1 / 2 \<le> real_of_int (round_even ?m)"
    using round_even_near[of ?m] by linarith
  then have "\<lceil>(4503599627370496::real) - 1 / 2\<rceil> \<le> round_even ?m"
    by (simp only: ceiling_le_iff)
  moreover have "\<lceil>(4503599627370496::real) - 1 / 2\<rceil> = 4503599627370496"
    by (rule ceiling_unique) simp_all
  ultimately have "(4503599627370496::int) \<le> round_even ?m" by simp
  then have "real_of_int 4503599627370496 \<le> of_int (round_even ?m)"
    by (simp only: of_int_le_iff)
  then have "(2::real) ^ 52 \<le> of_int (round_even ?m)" by simp
  then have "2 ^ 52 * quantum x \<le> of_int (round_even ?m) * quantum x"
    using quantum_pos[of x] by (intro mult_right_mono) simp_all
  moreover have "(2::real) powi exponent x = 2 powi (exponent x - 52) * 2 powi 52"
    using power_int_add[of "2::real" "exponent x - 52" 52] by simp
  ultimately show ?thesis using pos by (simp add: fl_def n(2))
qed

lemma fl_ge_one:
  assumes "1 \<le> x"
  shows "1 \<le> fl x"
proof -
  have "(2::real) powi (- 1022) \<le> 1" by (simp add: power_int_minus inverse_le_1_iff)
  with assms have a: "2 powi (- 1022) \<le> x" by linarith
  have "x \<noteq> 0" using assms by simp
  from exponent_bounds(2)[OF this] assms have "(2::real) powi 0 < 2 powi (exponent x + 1)"
    by simp
  then have "0 < exponent x + 1" by (simp only: two_powi_less_iff)
  then have "0 \<le> exponent x" by simp
  then have "(2::real) powi 0 \<le> 2 powi exponent x" by (simp only: two_powi_le_iff)
  with fl_lower[OF a] show ?thesis by simp
qed

lemma fl_lt_one:
  assumes "1 / 60 \<le> x" and "x \<le> 59 / 60"
  shows "fl x < 1"
proof -
  have "(2::real) powi (- 1022) \<le> 1 / 60" by (simp add: power_int_minus field_simps)
  with assms have a: "2 powi (- 1022) \<le> \<bar>x\<bar>" by linarith
  note n = normal_exponent[OF a]
  from exponent_bounds(1)[OF n(3)] assms have "(2::real) powi exponent x < 2 powi 0"
    by simp
  then have "exponent x < 0" by (simp only: two_powi_less_iff)
  then have "exponent x - 52 \<le> - 53" by simp
  then have "quantum x \<le> 2 powi (- 53)" unfolding n(2) by (simp only: two_powi_le_iff)
  moreover have "(2::real) powi (- 53) \<le> 1 / 60" by (simp add: power_int_minus field_simps)
  ultimately have "quantum x / 2 < 1 / 60" using quantum_pos[of x] by linarith
  with fl_error[of x] assms(2) show ?thesis by linarith
qed

lemma fl_of_int:
  assumes "\<bar>k\<bar> < 2 ^ 53"
  shows "fl (of_int k) = of_int k"
proof (cases "k = 0")
  case True
  then show ?thesis by (simp add: fl_def)
next
  case False
  let ?x = "real_of_int k"
  let ?e = "exponent ?x"
  have "1 \<le> \<bar>k\<bar>" using False by linarith
  then have "real_of_int 1 \<le> real_of_int \<bar>k\<bar>" by (simp only: of_int_le_iff)
  then have one: "1 \<le> \<bar>?x\<bar>" by simp
  have "(2::real) powi (- 1022) \<le> 1" by (simp add: power_int_minus inverse_le_1_iff)
  with one have a: "2 powi (- 1022) \<le> \<bar>?x\<bar>" by linarith
  note n = normal_exponent[OF a]
  have "real_of_int \<bar>k\<bar> < real_of_int (2 ^ 53)" using assms by (simp only: of_int_less_iff)
  then have "\<bar>?x\<bar> < 2 ^ 53" by simp
  with exponent_bounds(1)[OF n(3)] have "(2::real) powi ?e < 2 powi 53" by simp
  then have hi: "?e < 53" by (simp only: two_powi_less_iff)
  define j where "j = nat (52 - ?e)"
  have j: "int j = 52 - ?e" using hi by (simp add: j_def)
  have "quantum ?x = 2 powi (- int j)" unfolding n(2) j by simp
  then have q: "quantum ?x = 1 / 2 ^ j" by (simp add: power_int_minus_divide)
  have "?x / quantum ?x = of_int (k * 2 ^ j)" by (simp add: q)
  then have "round_even (?x / quantum ?x) = k * 2 ^ j" by (simp only: round_even_of_int)
  then show ?thesis using False by (simp add: fl_def q)
qed

lemma fl_small_int: "fl 1 = 1" "fl 2 = 2" "fl 10 = 10" "fl 17 = 17" "fl 20 = 20" "fl 100 = 100"
  using fl_of_int[of 1] fl_of_int[of 2] fl_of_int[of 10] fl_of_int[of 17] fl_of_int[of 20]
    fl_of_int[of 100]
  by simp_all

lemma fl_half: "fl (1 / 2) = 1 / 2"
  by (subst fl_eval[where e = "- 1"]) (simp_all add: round_even_def power_int_minus)

section \<open>Session analysis and restart\<close>

lemma js_round_of_int: "js_round (real_of_int k) = k"
  unfolding js_round_def by linarith

lemma js_round_of_nat: "js_round (real n) = int n"
  using js_round_of_int[of "int n"] by simp

lemma js_round_near:
  "real_of_int (js_round v) - 1 / 2 \<le> v" "v < real_of_int (js_round v) + 1 / 2"
  unfolding js_round_def by linarith+

lemma played_out_simps:
  "isFinished (played_out kind secs sc blinks)"
  "\<not> isPlaying (played_out kind secs sc blinks)"
  "timeLeft (played_out kind secs sc blinks) = 0"
  "score (played_out kind secs sc blinks) = sc"
  "sessionBlinks (played_out kind secs sc blinks) = blinks"
  by (simp_all add: played_out_def timerTick_def initialSession_def finishSession_def)

lemma measured_props_simps:
  "mode (measured_props kind secs) = REAL"
  "exerciseType (measured_props kind secs) = kind"
  "durationSeconds (measured_props kind secs) = secs"
  by (simp_all add: measured_props_def)

subsection \<open>Blinks per minute\<close>

text \<open>The guard \<^verbatim>\<open>|| 1\<close> fires exactly when no time has elapsed: the quotient of a nonzero
  number of seconds by 60 does not round to zero.\<close>

lemma durationMins_eq:
  "durationMins P s =
     (if durationSeconds P - timeLeft s = 0 then 1
      else fl (real_of_int (durationSeconds P - timeLeft s) / 60))"
proof (cases "durationSeconds P - timeLeft s = 0")
  case True
  then show ?thesis by (simp add: durationMins_def fl_def)
next
  case False
  let ?e = "durationSeconds P - timeLeft s"
  have "1 \<le> \<bar>?e\<bar>" using False by linarith
  then have "real_of_int 1 \<le> real_of_int \<bar>?e\<bar>" by (simp only: of_int_le_iff)
  then have "1 / 60 \<le> \<bar>real_of_int ?e / 60\<bar>" by simp
  moreover have "(2::real) powi (- 1022) \<le> 1 / 60" by (simp add: power_int_minus field_simps)
  ultimately have "2 powi (- 1022) \<le> \<bar>real_of_int ?e / 60\<bar>" by linarith
  then have "fl (real_of_int ?e / 60) \<noteq> 0" by (rule fl_nonzero)
  with False show ?thesis by (simp add: durationMins_def Let_def)
qed

lemma durationMins_ge_minute:
  assumes "60 \<le> durationSeconds P - timeLeft s"
  shows "1 \<le> durationMins P s"
proof -
  let ?e = "durationSeconds P - timeLeft s"
  have "real_of_int 60 \<le> real_of_int ?e" using assms by (simp only: of_int_le_iff)
  then have "1 \<le> real_of_int ?e / 60" by simp
  then have "1 \<le> fl (real_of_int ?e / 60)" by (rule fl_ge_one)
  with assms show ?thesis by (simp add: durationMins_eq)
qed

lemma durationMins_lt_minute:
  assumes "0 < durationSeconds P - timeLeft s" and "durationSeconds P - timeLeft s < 60"
  shows "durationMins P s < 1"
proof -
  let ?e = "durationSeconds P - timeLeft s"
  have "1 \<le> ?e" "?e \<le> 59" using assms by simp_all
  then have "real_of_int 1 \<le> real_of_int ?e" "real_of_int ?e \<le> real_of_int 59"
    by (simp_all only: of_int_le_iff)
  then have "1 / 60 \<le> real_of_int ?e / 60" "real_of_int ?e / 60 \<le> 59 / 60" by simp_all
  then have "fl (real_of_int ?e / 60) < 1" by (rule fl_lt_one)
  with assms show ?thesis by (simp add: durationMins_eq)
qed

lemma fl_46_15: "fl (46 / 15) = 6905519428634761 / 2 ^ 51"
  by (subst fl_eval[where e = 1]) (simp_all add: round_even_def power_int_minus)

lemma bpm_23_184: "fl (23 / fl (46 / 15)) = 8444249301319679 / 2 ^ 50"
  unfolding fl_46_15 by (subst fl_eval[where e = 2]) (simp_all add: round_even_def power_int_minus)

text \<open>
  Claim C1, as stated, fails: the divisor is not floored at one minute. A measured
  BlinkTraining session of 30 seconds that counted 10 blinks reports 20 BPM (10 blinks
  over half a minute), where a divisor floored at one minute gives 10.
\<close>

theorem bpm_floor_counterexample:
  "map_option clinicalValue
     (analysis (measured_props BLINK_TRAINING 30) (played_out BLINK_TRAINING 30 10 10)) = Some 20
   \<and> spec_bpm 10 (30 - timeLeft (played_out BLINK_TRAINING 30 10 10)) = 10"
  by (simp add: analysis_def getDetailedAnalysis_def measuredReport_def buildReport_def
      durationMins_def played_out_simps measured_props_simps spec_bpm_def
      spec_elapsedMinutes_def js_round_def Let_def fl_half fl_small_int)

text \<open>
  Claim C1 (amended). On the measured path the clinical value of a finished BlinkTraining
  session is \<open>round (blinkCount / elapsedMinutes)\<close>, the nearest integer (a half rounds up)
  to the double quotient, where \<open>elapsedMinutes\<close> is the double \<open>elapsedSeconds / 60\<close> and is
  replaced by 1 only when no time has elapsed. It agrees with the formula floored at one
  minute when the elapsed time is zero or at least 60 seconds; between 0 and 60 seconds
  the divisor is less than one minute.
\<close>

theorem bpm_measured:
  assumes "mode P = REAL" and "exerciseType P = BLINK_TRAINING" and "isFinished s"
  shows "\<exists>v. map_option clinicalValue (analysis P s) = Some v
           \<and> real_of_int v - 1 / 2
               \<le> fl (real (sessionBlinks s)
                      / (if durationSeconds P - timeLeft s = 0 then 1
                         else fl (real_of_int (durationSeconds P - timeLeft s) / 60)))
           \<and> fl (real (sessionBlinks s)
                  / (if durationSeconds P - timeLeft s = 0 then 1
                     else fl (real_of_int (durationSeconds P - timeLeft s) / 60)))
               < real_of_int v + 1 / 2
           \<and> (durationSeconds P - timeLeft s = 0 \<or> 60 \<le> durationSeconds P - timeLeft s \<longrightarrow>
                v = spec_bpm (sessionBlinks s) (durationSeconds P - timeLeft s))
           \<and> (0 < durationSeconds P - timeLeft s \<and> durationSeconds P - timeLeft s < 60 \<longrightarrow>
                durationMins P s < 1)"
proof -
  let ?e = "durationSeconds P - timeLeft s"
  let ?y = "fl (real (sessionBlinks s) / durationMins P s)"
  have v: "map_option clinicalValue (analysis P s) = Some (js_round ?y)"
    using assms
    by (simp add: analysis_def getDetailedAnalysis_def measuredReport_def buildReport_def Let_def)
  have b: "durationMins P s = spec_elapsedMinutes ?e" if "?e = 0 \<or> 60 \<le> ?e"
  proof (cases "?e = 0")
    case True
    then show ?thesis by (simp add: durationMins_eq spec_elapsedMinutes_def fl_def)
  next
    case False
    with that have "60 \<le> ?e" by simp
    then have "1 \<le> durationMins P s" by (rule durationMins_ge_minute)
    with False show ?thesis by (simp add: durationMins_eq spec_elapsedMinutes_def)
  qed
  have c: "durationMins P s < 1" if "0 < ?e \<and> ?e < 60"
    using that by (simp add: durationMins_lt_minute)
  have "real_of_int (js_round ?y) - 1 / 2 \<le> ?y" "?y < real_of_int (js_round ?y) + 1 / 2"
    by (rule js_round_near)+
  with b c show ?thesis
    unfolding v spec_bpm_def durationMins_eq[symmetric] by auto
qed

text \<open>The amended claim at four finished sessions: one minute with 17 blinks (17 BPM, as
  the floored formula gives), 30 seconds (divisor below one minute), 184 seconds with 23
  blinks (the double quotient is just below 7.5, so 7 BPM) and two minutes with one blink
  (exactly 0.5, which rounds up to 1).\<close>

theorem bpm_measured_witness:
  "map_option clinicalValue
     (analysis (measured_props BLINK_TRAINING 60) (played_out BLINK_TRAINING 60 17 17)) = Some 17
   \<and> spec_bpm 17 60 = 17
   \<and> durationMins (measured_props BLINK_TRAINING 30) (played_out BLINK_TRAINING 30 10 10) < 1
   \<and> map_option clinicalValue
     (analysis (measured_props BLINK_TRAINING 184) (played_out BLINK_TRAINING 184 23 23)) = Some 7
   \<and> map_option clinicalValue
     (analysis (measured_props BLINK_TRAINING 120) (played_out BLINK_TRAINING 120 1 1)) = Some 1"
proof -
  have f: "fl (1 / 2) = 1 / 2" by (rule fl_half)
  have a: "\<exists>v. map_option clinicalValue
     (analysis (measured_props BLINK_TRAINING 60) (played_out BLINK_TRAINING 60 17 17)) = Some v
       \<and> v = spec_bpm 17 60"
    using bpm_measured[of "measured_props BLINK_TRAINING 60" "played_out BLINK_TRAINING 60 17 17"]
    by (auto simp: played_out_simps measured_props_simps)
  have a': "spec_bpm 17 60 = 17"
    by (simp add: spec_bpm_def spec_elapsedMinutes_def fl_small_int js_round_def)
  have b: "durationMins (measured_props BLINK_TRAINING 30) (played_out BLINK_TRAINING 30 10 10) < 1"
    using bpm_measured[of "measured_props BLINK_TRAINING 30" "played_out BLINK_TRAINING 30 10 10"]
    by (auto simp: played_out_simps measured_props_simps)
  have c: "\<exists>v. map_option clinicalValue
     (analysis (measured_props BLINK_TRAINING 184) (played_out BLINK_TRAINING 184 23 23)) = Some v
       \<and> real_of_int v - 1 / 2 \<le> 8444249301319679 / 2 ^ 50
       \<and> 8444249301319679 / 2 ^ 50 < real_of_int v + 1 / 2"
    using bpm_measured[of "measured_props BLINK_TRAINING 184" "played_out BLINK_TRAINING 184 23 23"]
    by (auto simp: played_out_simps measured_props_simps bpm_23_184)
  have c': "v = 7" if "real_of_int v - 1 / 2 \<le> 8444249301319679 / 2 ^ 50"
    "8444249301319679 / 2 ^ 50 < real_of_int v + 1 / 2" for v :: int
    using that by simp
  have d: "\<exists>v. map_option clinicalValue
     (analysis (measured_props BLINK_TRAINING 120) (played_out BLINK_TRAINING 120 1 1)) = Some v
       \<and> real_of_int v - 1 / 2 \<le> 1 / 2 \<and> 1 / 2 < real_of_int v + 1 / 2"
    using bpm_measured[of "measured_props BLINK_TRAINING 120" "played_out BLINK_TRAINING 120 1 1"]
    by (auto simp: played_out_simps measured_props_simps fl_small_int f)
  have d': "v = 1" if "real_of_int v - 1 / 2 \<le> 1 / 2" "1 / 2 < real_of_int v + 1 / 2" for v :: int
    using that by linarith
  from a a' b c c' d d' show ?thesis by auto
qed

subsection \<open>Gaze accuracy\<close>

lemma fl_23_40: "fl (23 / 40) = 2589569785738035 / 2 ^ 52"
  by (subst fl_eval[where e = "- 1"]) (simp_all add: round_even_def power_int_minus)

lemma accuracy_23_40: "fl (fl (23 / 40) * 100) = 8092405580431359 / 2 ^ 47"
  unfolding fl_23_40 by (subst fl_eval[where e = 5]) (simp_all add: round_even_def power_int_minus)

lemma fl_3_40: "fl (3 / 40) = 5404319552844595 / 2 ^ 56"
  by (subst fl_eval[where e = "- 4"]) (simp_all add: round_even_def power_int_minus)

lemma accuracy_3_40: "fl (fl (3 / 40) * 100) = 15 / 2"
  unfolding fl_3_40 by (subst fl_eval[where e = 2]) (simp_all add: round_even_def power_int_minus)

lemma fl_299_600: "fl (299 / 600) = 8977175257225189 / 2 ^ 54"
  by (subst fl_eval[where e = "- 2"]) (simp_all add: round_even_def power_int_minus)

lemma accuracy_299_600: "fl (fl (299 / 600) * 100) = 7013418169707179 / 2 ^ 47"
  unfolding fl_299_600 by (subst fl_eval[where e = 5]) (simp_all add: round_even_def power_int_minus)

text \<open>Over the reals the quotient of score 345 at 60 seconds is exactly 57.5 and rounds to
  58; the doubles give 57.49999999999999, hence the 57 the session reports.\<close>

lemma accuracy_exact_345: "js_round (345 / 600 * 100) = 58"
  by (simp add: js_round_def)

lemma fl_29_200: "fl (29 / 200) = 5224175567749775 / 2 ^ 55"
  by (subst fl_eval[where e = "- 3"]) (simp_all add: round_even_def power_int_minus)

lemma accuracy_29_200: "fl (fl (29 / 200) * 100) = 8162774324609023 / 2 ^ 49"
  unfolding fl_29_200 by (subst fl_eval[where e = 3]) (simp_all add: round_even_def power_int_minus)

lemma fl_57_200: "fl (57 / 200) = 5134103575202365 / 2 ^ 54"
  by (subst fl_eval[where e = "- 2"]) (simp_all add: round_even_def power_int_minus)

lemma accuracy_57_200: "fl (fl (57 / 200) * 100) = 8022036836253695 / 2 ^ 48"
  unfolding fl_57_200 by (subst fl_eval[where e = 4]) (simp_all add: round_even_def power_int_minus)

lemma fl_113_200: "fl (113 / 200) = 1272266894732165 / 2 ^ 51"
  by (subst fl_eval[where e = "- 1"]) (simp_all add: round_even_def power_int_minus)

lemma accuracy_113_200: "fl (fl (113 / 200) * 100) = 7951668092076031 / 2 ^ 47"
  unfolding fl_113_200 by (subst fl_eval[where e = 5]) (simp_all add: round_even_def power_int_minus)

text \<open>Further scores at 60 seconds whose exact quotient ends in one half and whose double
  falls just below it.\<close>

lemma accuracy_samples:
  "efficiency (measured_props FOLLOW_DOT 60) (played_out FOLLOW_DOT 60 87 0) = 14"
  "efficiency (measured_props FOLLOW_DOT 60) (played_out FOLLOW_DOT 60 171 0) = 28"
  "efficiency (measured_props FOLLOW_DOT 60) (played_out FOLLOW_DOT 60 339 0) = 56"
  by (simp_all add: efficiency_def played_out_simps measured_props_simps Let_def
      accuracy_29_200 accuracy_57_200 accuracy_113_200 js_round_def)

text \<open>
  Claim C9. On the measured path, the clinical value of a finished FollowDot session in
  which time has elapsed is \<open>min 100 (round (score / (elapsedSeconds * 10) * 100))\<close>: the
  quotient and the product are those of the doubles, and \<open>round\<close> takes the nearest integer,
  a half rounding up. The status is Critical exactly when that value is below 50 and Good
  otherwise.
\<close>

theorem gaze_accuracy_measured:
  assumes "mode P = REAL" and "exerciseType P = FOLLOW_DOT" and "isFinished s"
    and "timeLeft s < durationSeconds P"
  shows "\<exists>v. map_option clinicalValue (analysis P s) = Some (min 100 v)
           \<and> real_of_int v - 1 / 2
               \<le> fl (fl (real (score s)
                          / real_of_int ((durationSeconds P - timeLeft s) * 10)) * 100)
           \<and> fl (fl (real (score s)
                      / real_of_int ((durationSeconds P - timeLeft s) * 10)) * 100)
               < real_of_int v + 1 / 2
           \<and> map_option status (analysis P s) =
               Some (if min 100 v < 50 then CRITICAL else GOOD)"
proof -
  let ?x = "fl (fl (real (score s) / real_of_int ((durationSeconds P - timeLeft s) * 10)) * 100)"
  have "map_option clinicalValue (analysis P s) = Some (min 100 (js_round ?x))"
    "map_option status (analysis P s) = Some (if min 100 (js_round ?x) < 50 then CRITICAL else GOOD)"
    using assms
    by (simp_all add: analysis_def getDetailedAnalysis_def measuredReport_def buildReport_def
        efficiency_def Let_def)
  moreover have "real_of_int (js_round ?x) - 1 / 2 \<le> ?x" "?x < real_of_int (js_round ?x) + 1 / 2"
    by (rule js_round_near)+
  ultimately show ?thesis by blast
qed

text \<open>The scenario of the specification, a score of 450 at 45 seconds elapsed, gives an
  accuracy of 100 and the status Good. A score of 345 at 60 seconds gives 57 (the double
  product is just below 57.5), a score of 3 at 4 seconds gives 8 (exactly 7.5, which rounds
  up) with the status Critical, and a score of 299 at 60 seconds gives 50, the least value
  with the status Good.\<close>

theorem gaze_accuracy_witness:
  "map_option clinicalValue
     (analysis (measured_props FOLLOW_DOT 45) (played_out FOLLOW_DOT 45 450 0)) = Some 100
   \<and> map_option status
     (analysis (measured_props FOLLOW_DOT 45) (played_out FOLLOW_DOT 45 450 0)) = Some GOOD
   \<and> map_option clinicalValue
     (analysis (measured_props FOLLOW_DOT 60) (played_out FOLLOW_DOT 60 345 0)) = Some 57
   \<and> map_option clinicalValue
     (analysis (measured_props FOLLOW_DOT 4) (played_out FOLLOW_DOT 4 3 0)) = Some 8
   \<and> map_option status
     (analysis (measured_props FOLLOW_DOT 4) (played_out FOLLOW_DOT 4 3 0)) = Some CRITICAL
   \<and> map_option clinicalValue
     (analysis (measured_props FOLLOW_DOT 60) (played_out FOLLOW_DOT 60 299 0)) = Some 50
   \<and> map_option status
     (analysis (measured_props FOLLOW_DOT 60) (played_out FOLLOW_DOT 60 299 0)) = Some GOOD"
proof -
  have r: "v = k" if "real_of_int v - 1 / 2 \<le> y" "y < real_of_int v + 1 / 2"
    "real_of_int k - 1 / 2 \<le> y" "y < real_of_int k + 1 / 2" for v k :: int and y :: real
    using that by linarith
  have k100: "real_of_int 100 - 1 / 2 \<le> (100::real)" "(100::real) < real_of_int 100 + 1 / 2"
    by simp_all
  have k57: "real_of_int 57 - 1 / 2 \<le> (8092405580431359 / 2 ^ 47 :: real)"
    "(8092405580431359 / 2 ^ 47 :: real) < real_of_int 57 + 1 / 2"
    by simp_all
  have k8: "real_of_int 8 - 1 / 2 \<le> (15 / 2 :: real)" "(15 / 2 :: real) < real_of_int 8 + 1 / 2"
    by simp_all
  have k50: "real_of_int 50 - 1 / 2 \<le> (7013418169707179 / 2 ^ 47 :: real)"
    "(7013418169707179 / 2 ^ 47 :: real) < real_of_int 50 + 1 / 2"
    by simp_all
  have a: "map_option clinicalValue
       (analysis (measured_props FOLLOW_DOT 45) (played_out FOLLOW_DOT 45 450 0)) = Some 100
     \<and> map_option status
       (analysis (measured_props FOLLOW_DOT 45) (played_out FOLLOW_DOT 45 450 0)) = Some GOOD"
  proof -
    from gaze_accuracy_measured[of "measured_props FOLLOW_DOT 45" "played_out FOLLOW_DOT 45 450 0"]
    obtain v where v: "map_option clinicalValue
         (analysis (measured_props FOLLOW_DOT 45) (played_out FOLLOW_DOT 45 450 0)) = Some (min 100 v)"
      "real_of_int v - 1 / 2 \<le> 100" "100 < real_of_int v + 1 / 2"
      "map_option status
         (analysis (measured_props FOLLOW_DOT 45) (played_out FOLLOW_DOT 45 450 0)) =
           Some (if min 100 v < 50 then CRITICAL else GOOD)"
      by (auto simp: played_out_simps measured_props_simps fl_small_int)
    have "v = 100" using r[OF v(2,3) k100] .
    with v(1,4) show ?thesis by simp
  qed
  have b: "map_option clinicalValue
       (analysis (measured_props FOLLOW_DOT 60) (played_out FOLLOW_DOT 60 345 0)) = Some 57"
  proof -
    from gaze_accuracy_measured[of "measured_props FOLLOW_DOT 60" "played_out FOLLOW_DOT 60 345 0"]
    obtain v where v: "map_option clinicalValue
         (analysis (measured_props FOLLOW_DOT 60) (played_out FOLLOW_DOT 60 345 0)) = Some (min 100 v)"
      "real_of_int v - 1 / 2 \<le> 8092405580431359 / 2 ^ 47"
      "8092405580431359 / 2 ^ 47 < real_of_int v + 1 / 2"
      by (auto simp: played_out_simps measured_props_simps accuracy_23_40)
    have "v = 57" using r[OF v(2,3) k57] .
    with v(1) show ?thesis by simp
  qed
  have c: "map_option clinicalValue
       (analysis (measured_props FOLLOW_DOT 4) (played_out FOLLOW_DOT 4 3 0)) = Some 8
     \<and> map_option status
       (analysis (measured_props FOLLOW_DOT 4) (played_out FOLLOW_DOT 4 3 0)) = Some CRITICAL"
  proof -
    from gaze_accuracy_measured[of "measured_props FOLLOW_DOT 4" "played_out FOLLOW_DOT 4 3 0"]
    obtain v where v: "map_option clinicalValue
         (analysis (measured_props FOLLOW_DOT 4) (played_out FOLLOW_DOT 4 3 0)) = Some (min 100 v)"
      "real_of_int v - 1 / 2 \<le> 15 / 2" "15 / 2 < real_of_int v + 1 / 2"
      "map_option status
         (analysis (measured_props FOLLOW_DOT 4) (played_out FOLLOW_DOT 4 3 0)) =
           Some (if min 100 v < 50 then CRITICAL else GOOD)"
      by (auto simp: played_out_simps measured_props_simps accuracy_3_40)
    have "v = 8" using r[OF v(2,3) k8] .
    with v(1,4) show ?thesis by simp
  qed
  have d: "map_option clinicalValue
       (analysis (measured_props FOLLOW_DOT 60) (played_out FOLLOW_DOT 60 299 0)) = Some 50
     \<and> map_option status
       (analysis (measured_props FOLLOW_DOT 60) (played_out FOLLOW_DOT 60 299 0)) = Some GOOD"
  proof -
    from gaze_accuracy_measured[of "measured_props FOLLOW_DOT 60" "played_out FOLLOW_DOT 60 299 0"]
    obtain v where v: "map_option clinicalValue
         (analysis (measured_props FOLLOW_DOT 60) (played_out FOLLOW_DOT 60 299 0)) = Some (min 100 v)"
      "real_of_int v - 1 / 2 \<le> 7013418169707179 / 2 ^ 47"
      "7013418169707179 / 2 ^ 47 < real_of_int v + 1 / 2"
      "map_option status
         (analysis (measured_props FOLLOW_DOT 60) (played_out FOLLOW_DOT 60 299 0)) =
           Some (if min 100 v < 50 then CRITICAL else GOOD)"
      by (auto simp: played_out_simps measured_props_simps accuracy_299_600)
    have "v = 50" using r[OF v(2,3) k50] .
    with v(1,4) show ?thesis by simp
  qed
  from a b c d show ?thesis by simp
qed

text \<open>
  Claim C8. In a finished session the play button restarts: the restart sets the score and
  both blink counters to 0, the head stability score to 100, the time left to the
  configured duration and the phase to Idle, and leaves the profile as it was. The exercise
  kind is a property of the component and no part of the state that restart writes.
\<close>

theorem restart_resets:
  assumes "isFinished s"
  shows "phase_of s = Finished
         \<and> togglePlay P s = restartSession P s
         \<and> score (restartSession P s) = 0
         \<and> blinkCount (hook (restartSession P s)) = 0
         \<and> sessionBlinks (restartSession P s) = 0
         \<and> headStabilityScore (restartSession P s) = 100
         \<and> timeLeft (restartSession P s) = durationSeconds P
         \<and> phase_of (restartSession P s) = Idle
         \<and> demoState (restartSession P s) = demoState s"
  using assms by (simp add: phase_of_def togglePlay_def restartSession_def)

theorem restart_resets_witness:
  "isFinished (played_out HEAD_STABILITY 60 7 3)
   \<and> phase_of (togglePlay (measured_props HEAD_STABILITY 60) (played_out HEAD_STABILITY 60 7 3)) = Idle
   \<and> score (togglePlay (measured_props HEAD_STABILITY 60) (played_out HEAD_STABILITY 60 7 3)) = 0
   \<and> timeLeft (togglePlay (measured_props HEAD_STABILITY 60) (played_out HEAD_STABILITY 60 7 3)) = 60"
  using restart_resets[of "played_out HEAD_STABILITY 60 7 3" "measured_props HEAD_STABILITY 60"]
  by (simp add: played_out_simps measured_props_simps)

section \<open>Smoothing\<close>

lemma smooth_ticks_error: "smooth_ticks n prev raw - raw = (prev - raw) / 2 ^ n"
proof (induction n arbitrary: prev)
  case 0
  show ?case by simp
next
  case (Suc n)
  have "lerp prev raw POSE_SMOOTHING - raw = (prev - raw) / 2"
    by (simp add: lerp_def POSE_SMOOTHING_def field_simps)
  with Suc[of "lerp prev raw POSE_SMOOTHING"] show ?case
    by (simp add: field_simps)
qed

lemma smooth_ticks_dist: "\<bar>smooth_ticks n prev raw - raw\<bar> = \<bar>prev - raw\<bar> / 2 ^ n"
  by (simp add: smooth_ticks_error)

text \<open>
  Claim C6, as stated, fails: from a previous yaw of 0 and a constant raw yaw of 20 degrees
  the output is farther than 0.001 from the raw value after each of the first ten ticks
  (after ten ticks the distance is 20/1024).
\<close>

theorem smoothing_ten_ticks_counterexample:
  "\<bar>smooth_ticks 0 0 20 - 20\<bar> > 0.001 \<and> \<bar>smooth_ticks 1 0 20 - 20\<bar> > 0.001 \<and>
   \<bar>smooth_ticks 2 0 20 - 20\<bar> > 0.001 \<and> \<bar>smooth_ticks 3 0 20 - 20\<bar> > 0.001 \<and>
   \<bar>smooth_ticks 4 0 20 - 20\<bar> > 0.001 \<and> \<bar>smooth_ticks 5 0 20 - 20\<bar> > 0.001 \<and>
   \<bar>smooth_ticks 6 0 20 - 20\<bar> > 0.001 \<and> \<bar>smooth_ticks 7 0 20 - 20\<bar> > 0.001 \<and>
   \<bar>smooth_ticks 8 0 20 - 20\<bar> > 0.001 \<and> \<bar>smooth_ticks 9 0 20 - 20\<bar> > 0.001 \<and>
   \<bar>smooth_ticks 10 0 20 - 20\<bar> > 0.001"
  unfolding smooth_ticks_dist by simp

text \<open>
  Claim C6 (amended). With factor 0.5 and a constant raw input, the distance between the
  smoothed output and the raw value after \<open>n\<close> ticks is the initial distance divided by
  \<open>2 ^ n\<close>; so the output is within 0.001 of the raw value after ten ticks exactly when the
  initial distance is at most 1.024.
\<close>

theorem smoothing_converges:
  "\<bar>smooth_ticks n prev raw - raw\<bar> = \<bar>prev - raw\<bar> / 2 ^ n \<and>
   (\<bar>prev - raw\<bar> \<le> 1.024 \<longrightarrow> \<bar>smooth_ticks 10 prev raw - raw\<bar> \<le> 0.001) \<and>
   (\<bar>smooth_ticks 10 prev raw - raw\<bar> \<le> 0.001 \<longrightarrow> \<bar>prev - raw\<bar> \<le> 1.024)"
  unfolding smooth_ticks_dist by (simp add: field_simps)

theorem smoothing_converges_witness:
  "\<bar>(1::real) - 0\<bar> \<le> 1.024 \<and> \<bar>smooth_ticks 10 1 0 - 0\<bar> \<le> 0.001"
  using smoothing_converges[of 10 1 0] by simp

section \<open>The detector adapter\<close>

lemma processFrame_face:
  assumes "modelReady inp" and "currentTime inp \<noteq> lastVideoTime tr"
    and "detectForVideo inp = Returned (Some (landmarks # others)) bs"
  shows "processFrame tr inp = (smoothedData (prevData tr) landmarks bs, currentTime inp)"
  using assms by (simp add: processFrame_def)

lemma processFrame_noface:
  assumes "modelReady inp" and "currentTime inp \<noteq> lastVideoTime tr"
    and "detectForVideo inp = Returned faces bs" and "faces = None \<or> faces = Some []"
  shows "processFrame tr inp =
           (Inr ((prevData tr)\<lparr>confidence := 0.3, blinkDetected := False\<rparr>), currentTime inp)"
  using assms by (auto simp: processFrame_def)

lemma turned_face_length: "length turned_face = 478"
  by (simp add: turned_face_def)

lemma turned_face_nth:
  "turned_face ! 1 = \<lparr> px = 0.6, py = 0.5 \<rparr>"
  "turned_face ! Suc 0 = \<lparr> px = 0.6, py = 0.5 \<rparr>"
  "turned_face ! 234 = centre" "turned_face ! 454 = centre"
  "turned_face ! 159 = centre" "turned_face ! 386 = centre"
  by (simp_all add: turned_face_def)

text \<open>
  Claim C7. When the detector was asked (the model is ready and the video has advanced) and
  returned no face, \<^verbatim>\<open>processFrame\<close> returns the previous frame with the confidence set to
  0.3 and \<^verbatim>\<open>blinkDetected\<close> set to false; every other field is that of the previous frame.
\<close>

theorem no_face_degrades:
  assumes "modelReady inp" and "currentTime inp \<noteq> lastVideoTime tr"
    and "detectForVideo inp = Returned faces bs" and "faces = None \<or> faces = Some []"
  shows "\<exists>f. fst (processFrame tr inp) = Inr f
           \<and> f = (prevData tr)\<lparr>confidence := 0.3, blinkDetected := False\<rparr>
           \<and> confidence f = 0.3 \<and> \<not> blinkDetected f
           \<and> yaw f = yaw (prevData tr) \<and> pitch f = pitch (prevData tr)
           \<and> roll f = roll (prevData tr)
           \<and> eyeOpennessLeft f = eyeOpennessLeft (prevData tr)
           \<and> eyeOpennessRight f = eyeOpennessRight (prevData tr)
           \<and> mouthSymmetry f = mouthSymmetry (prevData tr)
           \<and> gazeX f = gazeX (prevData tr) \<and> gazeY f = gazeY (prevData tr)
           \<and> leftEye f = leftEye (prevData tr) \<and> rightEye f = rightEye (prevData tr)"
  by (simp add: processFrame_noface[OF assms])

theorem no_face_degrades_witness:
  "fst (processFrame initialTracker noface_input) =
     Inr (DEFAULT_FACE_DATA\<lparr>confidence := 0.3, blinkDetected := False\<rparr>)"
  using no_face_degrades[of noface_input initialTracker "Some []" None]
  by (simp add: noface_input_def initialTracker_def)

text \<open>
  Claim C10. Every frame that \<^verbatim>\<open>processFrame\<close> builds from a detected face has roll exactly
  0, whatever the landmarks and the previous frame are, while the synthetic generator
  produces a nonzero roll (at time 0: 2, 0.5 and 0.1 degrees for the three profiles).
\<close>

theorem detector_roll_zero:
  assumes "modelReady inp" and "currentTime inp \<noteq> lastVideoTime tr"
    and "detectForVideo inp = Returned (Some (landmarks # others)) bs"
    and "fst (processFrame tr inp) = Inr f"
  shows "roll f = 0 \<and> roll (simulateData LOW 0 rx ry rb) = 2
         \<and> roll (simulateData HEALTHY 0 rx ry rb) = 0.5
         \<and> roll (simulateData HIGH 0 rx ry rb) = 0.1"
proof -
  have "smoothedData (prevData tr) landmarks bs = Inr f"
    using assms by (simp add: processFrame_face)
  then have "roll f = 0"
    by (auto simp: smoothedData_def Let_def split: if_splits)
  then show ?thesis
    by (simp add: simulateData_def sim_roll_def)
qed

theorem detector_roll_zero_witness:
  "map_sum id roll (fst (processFrame initialTracker turned_input)) = Inr 0"
proof -
  obtain f where f: "fst (processFrame initialTracker turned_input) = Inr f"
    by (simp add: processFrame_def turned_input_def initialTracker_def smoothedData_def
        turned_face_length Let_def)
  have "roll f = 0"
    using detector_roll_zero[of turned_input initialTracker turned_face "[]" _ f] f
    by (simp add: turned_input_def initialTracker_def)
  with f show ?thesis by simp
qed

text \<open>
  Claim C5, as stated, fails for the pose fields: on the first frame of a tracker (previous
  frame the default frame) a face whose raw yaw is 20 degrees is emitted with yaw 10.
\<close>

theorem first_frame_pose_counterexample:
  "map_sum id yaw (fst (processFrame initialTracker turned_input)) = Inr 10
   \<and> rawYaw turned_face = 20"
  by (simp add: processFrame_def turned_input_def initialTracker_def smoothedData_def
      turned_face_length Let_def rawYaw_def turned_face_nth centre_def lerp_def
      POSE_SMOOTHING_def DEFAULT_FACE_DATA_def)

text \<open>
  Claim C5 (amended). On the first frame processed by the detector adapter, when the
  previous frame is the default frame, each eye-landmark point passes through unsmoothed
  (the default frame has no eye landmarks), while the pose fields yaw, pitch, gazeX and
  gazeY are smoothed against the default frame's zeros: each is half of its raw value.
\<close>

theorem first_frame_smoothing:
  assumes "prevData tr = DEFAULT_FACE_DATA"
    and "modelReady inp" and "currentTime inp \<noteq> lastVideoTime tr"
    and "detectForVideo inp = Returned (Some (landmarks # others)) bs"
    and "473 < length landmarks"
  shows "\<exists>f. fst (processFrame tr inp) = Inr f
           \<and> leftEye f = Some (rawLeftEye landmarks)
           \<and> rightEye f = Some (rawRightEye landmarks)
           \<and> yaw f = rawYaw landmarks / 2
           \<and> pitch f = rawPitch landmarks / 2
           \<and> gazeX f = ((px (landmarks ! 1) - 0.5) * 2) / 2
           \<and> gazeY f = ((py (landmarks ! 1) - 0.5) * 2) / 2"
  using assms
  by (simp add: processFrame_face smoothedData_def Let_def DEFAULT_FACE_DATA_def smoothEye_def
      lerp_def POSE_SMOOTHING_def)

theorem first_frame_smoothing_witness:
  "map_sum id leftEye (fst (processFrame initialTracker turned_input)) =
     Inr (Some (rawLeftEye turned_face))
   \<and> map_sum id yaw (fst (processFrame initialTracker turned_input)) =
     Inr (rawYaw turned_face / 2)"
  using first_frame_smoothing[of initialTracker turned_input turned_face "[]"]
  by (auto simp: turned_input_def initialTracker_def turned_face_length)

section \<open>The blink edge detector\<close>

lemma runs_nonempty: "r \<in> set (runs vs) \<Longrightarrow> r \<noteq> []"
  by (induction vs arbitrary: r) (auto split: list.splits if_splits)

lemma runs_head: "runs vs = r # rs \<Longrightarrow> vs \<noteq> [] \<and> r \<noteq> [] \<and> hd r = hd vs"
  by (cases vs) (auto split: list.splits if_splits)

lemma runs_constant: "r \<in> set (runs vs) \<Longrightarrow> v \<in> set r \<Longrightarrow> v = hd r"
  by (induction vs arbitrary: r v) (auto split: list.splits if_splits)

lemma runs_concat: "concat (runs vs) = vs"
  by (induction vs) (auto split: list.splits)

lemma runs_maximal: "distinct_adj (map hd (runs vs))"
  by (induction vs) (auto split: list.splits)

lemma runs_Nil_iff: "runs vs = [] \<longleftrightarrow> vs = []"
  by (cases vs) (auto split: list.splits)

lemma deliver_fields:
  "lastBlinkState (deliver tr f) = blinkDetected f"
  "blinkCount (deliver tr f) =
     (if blinkDetected f \<and> \<not> lastBlinkState tr then blinkCount tr + 1 else blinkCount tr)"
  "prevData (deliver tr f) = f" "faceData (deliver tr f) = f"
  by (simp_all add: deliver_def)

lemma loop_delivers:
  assumes "loop m p tr tk = Some tr'"
  shows "tr' = tr
         \<or> (\<exists>data vt. tr' = deliver (tr\<lparr>lastProcessTime := tick_time tk, lastVideoTime := vt\<rparr>) data)"
proof (cases "m = REAL \<and> tick_time tk - lastProcessTime tr < 32")
  case True
  with assms show ?thesis by (simp add: loop_def)
next
  case False
  show ?thesis
  proof (cases "m = REAL")
    case True
    with False assms show ?thesis
      by (auto simp: loop_def Let_def split: prod.splits sum.splits)
  next
    case demo: False
    with assms have "tr' = deliver (tr\<lparr>lastProcessTime := tick_time tk\<rparr>)
        (simulateData p (tick_time tk) (rand_x tk) (rand_y tk) (rand_blink tk))"
      by (simp add: loop_def Let_def)
    then have "tr' = deliver (tr\<lparr>lastProcessTime := tick_time tk, lastVideoTime := lastVideoTime tr\<rparr>)
        (simulateData p (tick_time tk) (rand_x tk) (rand_y tk) (rand_blink tk))"
      by simp
    then show ?thesis by blast
  qed
qed

lemma feed_Cons: "feed tr (f # fs) = feed (deliver tr f) fs"
  by (simp add: feed_def)

lemma feed_Nil: "feed tr [] = tr"
  by (simp add: feed_def)

lemma feed_snoc: "feed tr (fs @ [f]) = deliver (feed tr fs) f"
  by (simp add: feed_def)

lemma true_runs_Cons:
  "length (filter (\<lambda>r. True \<in> set r) (runs (b # bs))) =
     (if bs \<noteq> [] \<and> hd bs = b then length (filter (\<lambda>r. True \<in> set r) (runs bs))
      else (if b then 1 else 0) + length (filter (\<lambda>r. True \<in> set r) (runs bs)))"
proof (cases "runs bs")
  case Nil
  then show ?thesis by (simp add: runs_Nil_iff)
next
  case (Cons r rs)
  then have h: "bs \<noteq> []" "r \<noteq> []" "hd r = hd bs"
    using runs_head by blast+
  from h(2) have "hd r \<in> set r" by (rule hd_in_set)
  with h(3) have "hd bs \<in> set r" by simp
  with Cons h show ?thesis by auto
qed

lemma blink_runs_Cons:
  "blink_runs (f # fs) =
     (if fs \<noteq> [] \<and> blinkDetected (hd fs) = blinkDetected f then blink_runs fs
      else (if blinkDetected f then 1 else 0) + blink_runs fs)"
  unfolding blink_runs_def list.map true_runs_Cons by (cases fs) simp_all

lemma blink_runs_Nil: "blink_runs [] = 0"
  by (simp add: blink_runs_def)

lemma feed_count:
  "blinkCount (feed tr fs)
     + (if lastBlinkState tr \<and> fs \<noteq> [] \<and> blinkDetected (hd fs) then 1 else 0)
   = blinkCount tr + blink_runs fs"
proof (induction fs arbitrary: tr)
  case Nil
  show ?case by (simp add: feed_Nil blink_runs_def)
next
  case (Cons f fs)
  from Cons[of "deliver tr f"] show ?case
    by (cases fs)
      (auto simp: feed_Cons feed_Nil blink_runs_Cons blink_runs_Nil deliver_fields
        split: if_splits)
qed

lemma feed_last_state:
  "k < length fs \<Longrightarrow> lastBlinkState (feed tr (take (Suc k) fs)) = blinkDetected (fs ! k)"
  by (simp add: take_Suc_conv_app_nth feed_snoc deliver_fields)

text \<open>
  Claim C2. Starting from a last-blink state of false, feeding any sequence of frames
  raises the blink counter by the number of maximal contiguous runs of frames with
  \<^verbatim>\<open>blinkDetected = true\<close>, and after each frame the last-blink state is that frame's
  \<^verbatim>\<open>blinkDetected\<close> value.
\<close>

theorem blink_edge_count:
  assumes "\<not> lastBlinkState tr"
  shows "blinkCount (feed tr frames) = blinkCount tr + blink_runs frames
         \<and> (k < length frames \<longrightarrow>
              lastBlinkState (feed tr (take (Suc k) frames)) = blinkDetected (frames ! k))"
  using assms feed_count[of tr frames] by (simp add: feed_last_state)

text \<open>The sequence \<open>[F,F,T,T,T,F,T]\<close> of the specification yields a count of 2.\<close>

theorem blink_edge_count_witness:
  "blinkCount (feed initialTracker
     (blink_frames [False, False, True, True, True, False, True])) = 2
   \<and> lastBlinkState (feed initialTracker
     (take (Suc 5) (blink_frames [False, False, True, True, True, False, True]))) = False"
  using blink_edge_count[of initialTracker
      "blink_frames [False, False, True, True, True, False, True]" 5]
  by (simp add: initialTracker_def blink_frames_def blink_runs_def)

section \<open>Ranges of the frame fields and of the stability score\<close>

lemma openness_range:
  fixes ge :: real and pe :: real and tremor :: real
  assumes "tremor \<le> 0.005"
  shows "0.02 \<le> max 0.1 (0.94 - max 0 ge - max 0 pe + tremor)"
    and "max 0.1 (0.94 - max 0 ge - max 0 pe + tremor) \<le> 0.945"
  using assms by (auto simp: max_def)

lemma sim_openness_bounds:
  "0.02 \<le> sim_openness p t ry rb" "sim_openness p t ry rb \<le> 0.945"
proof -
  have tr: "sin (t / 50) * 0.005 \<le> (0.005 :: real)"
    using sin_le_one[of "t / 50"] by simp
  have "0.02 \<le> sim_openness p t ry rb \<and> sim_openness p t ry rb \<le> 0.945"
  proof (cases "sim_isBlinking p t rb")
    case True
    then show ?thesis by (simp add: sim_openness_def)
  next
    case False
    then have eq: "sim_openness p t ry rb =
        max 0.1 (0.94 - max 0 (sim_gazeY p t ry * 0.2) - max 0 (sim_pitch p t * 0.01)
                 + sin (t / 50) * 0.005)"
      by (simp add: sim_openness_def Let_def)
    show ?thesis
      unfolding eq using openness_range[OF tr] by blast
  qed
  then show "0.02 \<le> sim_openness p t ry rb" "sim_openness p t ry rb \<le> 0.945"
    by simp_all
qed

lemma simulateData_ok: "frame_ok (simulateData p t rx ry rb)"
proof -
  have a: "0 \<le> 1 - asymmetry p" "1 - asymmetry p \<le> 1" "0 \<le> 0.95 - asymmetry p"
    "0.95 - asymmetry p \<le> 1"
    by (cases p; simp)+
  have o: "0 \<le> sim_openness p t ry rb" "sim_openness p t ry rb \<le> 1"
    using sim_openness_bounds[of p t ry rb] by simp_all
  have "0 \<le> sim_openness p t ry rb * (1 - asymmetry p)"
    using o(1) a(1) by (rule mult_nonneg_nonneg)
  moreover have "sim_openness p t ry rb * (1 - asymmetry p) \<le> 1 * 1"
    using o a by (intro mult_mono) simp_all
  ultimately show ?thesis
    using a o by (simp add: frame_ok_def in_unit_def simulateData_def)
qed

lemma blendScore_unit:
  assumes "scores_in_unit (Returned faces bs)"
  shows "in_unit (blendScore bs name)"
proof (cases bs)
  case None
  then show ?thesis by (simp add: blendScore_def in_unit_def)
next
  case (Some l)
  show ?thesis
  proof (cases l)
    case Nil
    with Some show ?thesis by (simp add: blendScore_def in_unit_def)
  next
    case (Cons cs rest)
    show ?thesis
    proof (cases "map_of cs name")
      case None
      with Some Cons show ?thesis by (simp add: blendScore_def in_unit_def)
    next
      case (Some sc)
      then have "(name, sc) \<in> set cs" by (rule map_of_SomeD)
      moreover have "list_all (\<lambda>c. in_unit (snd c)) cs"
        using assms \<open>bs = Some l\<close> Cons by (simp add: scores_in_unit_def)
      ultimately have "in_unit sc" by (auto simp: list_all_iff)
      with Some \<open>bs = Some l\<close> Cons show ?thesis by (simp add: blendScore_def)
    qed
  qed
qed

lemma smoothedData_ok:
  assumes "scores_in_unit (Returned faces bs)" and "smoothedData prev landmarks bs = Inr f"
  shows "frame_ok f"
proof -
  have "in_unit (blendScore bs ''eyeBlinkLeft'')" "in_unit (blendScore bs ''eyeBlinkRight'')"
    using assms(1) by (rule blendScore_unit)+
  with assms(2) show ?thesis
    by (auto simp: smoothedData_def Let_def frame_ok_def in_unit_def split: if_splits)
qed

lemma processFrame_ok:
  assumes "frame_ok (prevData tr)" and "scores_in_unit (detectForVideo inp)"
    and "fst (processFrame tr inp) = Inr f"
  shows "frame_ok f"
proof (cases "\<not> modelReady inp \<or> currentTime inp = lastVideoTime tr")
  case True
  with assms show ?thesis
    by (auto simp: processFrame_def frame_ok_def in_unit_def split: if_splits)
next
  case False
  show ?thesis
  proof (cases "detectForVideo inp")
    case Threw
    with False assms show ?thesis by (simp add: processFrame_def)
  next
    case (Returned faces bs)
    show ?thesis
    proof (cases "\<exists>landmarks others. faces = Some (landmarks # others)")
      case True
      then obtain landmarks others where "faces = Some (landmarks # others)" by blast
      with False Returned assms have "smoothedData (prevData tr) landmarks bs = Inr f"
        by (simp add: processFrame_def)
      with assms(2) Returned show ?thesis by (simp add: smoothedData_ok)
    next
      case no: False
      then have "faces = None \<or> faces = Some []"
        by (cases faces; cases "the faces"; simp)
      with False Returned assms show ?thesis
        by (auto simp: processFrame_def frame_ok_def in_unit_def)
    qed
  qed
qed

lemma loop_ok:
  assumes "frame_ok (prevData tr)" and "frame_ok (faceData tr)"
    and "scores_in_unit (detectForVideo (tick_input tk))"
    and "loop m p tr tk = Some tr'"
  shows "frame_ok (prevData tr') \<and> frame_ok (faceData tr')"
proof (cases "m = REAL \<and> tick_time tk - lastProcessTime tr < 32")
  case True
  with assms show ?thesis by (simp add: loop_def)
next
  case False
  show ?thesis
  proof (cases "m = REAL")
    case True
    let ?tr1 = "tr\<lparr>lastProcessTime := tick_time tk\<rparr>"
    from True False assms(4) obtain data vt where
      pf: "processFrame ?tr1 (tick_input tk) = (Inr data, vt)"
      and tr': "tr' = deliver (?tr1\<lparr>lastVideoTime := vt\<rparr>) data"
      by (auto simp: loop_def Let_def split: prod.splits sum.splits)
    have "frame_ok data"
      using processFrame_ok[of ?tr1 "tick_input tk" data] assms(1,3) pf by simp
    with tr' show ?thesis by (simp add: deliver_def)
  next
    case demo: False
    with assms(4) show ?thesis
      by (auto simp: loop_def Let_def deliver_def simulateData_ok)
  qed
qed

lemma run_ticks_ok:
  assumes "frame_ok (prevData tr)" and "frame_ok (faceData tr)"
    and "list_all (\<lambda>tk. scores_in_unit (detectForVideo (tick_input tk))) tks"
    and "run_ticks m p tr tks = Some tr'"
  shows "frame_ok (prevData tr') \<and> frame_ok (faceData tr')"
  using assms
proof (induction tks arbitrary: tr)
  case Nil
  then show ?case by simp
next
  case (Cons tk tks)
  from Cons.prems(4) obtain tr1 where l: "loop m p tr tk = Some tr1"
    and r: "run_ticks m p tr1 tks = Some tr'"
    by (auto split: option.splits)
  have "frame_ok (prevData tr1) \<and> frame_ok (faceData tr1)"
    using loop_ok[OF Cons.prems(1,2) _ l] Cons.prems(3) by simp
  with Cons.IH[of tr1] r Cons.prems(3) show ?case by simp
qed

lemma gameLoop_stability: "stability_ok s \<Longrightarrow> stability_ok (gameLoop P s r1 r2)"
  by (cases "exerciseType P") (auto simp: gameLoop_def stability_ok_def Let_def)

lemma run_game_stability: "stability_ok s \<Longrightarrow> stability_ok (run_game P s evs)"
proof (induction evs arbitrary: s)
  case Nil
  then show ?case by simp
next
  case (Cons ev evs)
  obtain f r1 r2 where ev: "ev = (f, r1, r2)" by (cases ev)
  have "stability_ok (s\<lparr>hook := (hook s)\<lparr>faceData := f\<rparr>\<rparr>)"
    using Cons.prems by (simp add: stability_ok_def)
  then have "stability_ok (gameLoop P (s\<lparr>hook := (hook s)\<lparr>faceData := f\<rparr>\<rparr>) r1 r2)"
    by (rule gameLoop_stability)
  then show ?case unfolding ev by (simp add: Cons.IH)
qed

lemma initial_stability: "stability_ok (initialSession P)"
  by (simp add: stability_ok_def initialSession_def)

lemma restart_stability: "stability_ok (restartSession P s)"
  by (simp add: stability_ok_def restartSession_def)

lemma default_ok: "frame_ok DEFAULT_FACE_DATA"
  by (simp add: frame_ok_def in_unit_def DEFAULT_FACE_DATA_def)

text \<open>
  Claim C4. Every frame of the synthetic generator, and every frame the detector adapter
  returns when the detector's blendshape scores lie in \<open>[0,1]\<close> and the previous frame is
  in range, has confidence, both eye opennesses and the mouth symmetry in \<open>[0,1]\<close>; so has
  every frame of a run of the loop from a tracker whose frames are in range (the initial
  tracker holds the default frame, which is). The head stability score is 100 at the start
  and after a restart, and every 100 ms scoring tick keeps it in \<open>[0,100]\<close>.
\<close>

theorem ranges_invariant:
  "frame_ok DEFAULT_FACE_DATA
   \<and> frame_ok (simulateData p t rx ry rb)
   \<and> (frame_ok (prevData tr) \<and> scores_in_unit (detectForVideo inp)
        \<and> fst (processFrame tr inp) = Inr f \<longrightarrow> frame_ok f)
   \<and> (frame_ok (prevData tr) \<and> frame_ok (faceData tr)
        \<and> list_all (\<lambda>tk. scores_in_unit (detectForVideo (tick_input tk))) tks
        \<and> run_ticks m p tr tks = Some tr' \<longrightarrow> frame_ok (prevData tr') \<and> frame_ok (faceData tr'))
   \<and> stability_ok (initialSession P)
   \<and> stability_ok (restartSession P s)
   \<and> (stability_ok s \<longrightarrow> stability_ok (gameLoop P s r1 r2) \<and> stability_ok (run_game P s evs))"
  using processFrame_ok[of tr inp f] run_ticks_ok[of tr tks m p tr']
  by (auto simp: default_ok simulateData_ok gameLoop_stability run_game_stability
      initial_stability restart_stability)

theorem ranges_invariant_witness:
  "frame_ok (prevData initialTracker)
   \<and> scores_in_unit (detectForVideo turned_input)
   \<and> (case fst (processFrame initialTracker turned_input) of
         Inl e \<Rightarrow> False | Inr f \<Rightarrow> frame_ok f)
   \<and> (case run_ticks REAL HEALTHY initialTracker [turned_tick] of
         None \<Rightarrow> False | Some tr' \<Rightarrow> frame_ok (faceData tr'))
   \<and> stability_ok (playing (measured_props HEAD_STABILITY 60))
   \<and> stability_ok (run_game (measured_props HEAD_STABILITY 60)
                      (playing (measured_props HEAD_STABILITY 60)) [(moving_head, 0.5, 0.5)])
   \<and> headStabilityScore (run_game (measured_props HEAD_STABILITY 60)
                      (playing (measured_props HEAD_STABILITY 60)) [(moving_head, 0.5, 0.5)]) = 99.8"
proof -
  let ?P = "measured_props HEAD_STABILITY 60"
  have a: "frame_ok (prevData initialTracker)" "frame_ok (faceData initialTracker)"
    by (simp_all add: initialTracker_def frame_ok_def in_unit_def DEFAULT_FACE_DATA_def)
  have b: "scores_in_unit (detectForVideo turned_input)"
    by (simp add: turned_input_def scores_in_unit_def in_unit_def)
  obtain f where f: "fst (processFrame initialTracker turned_input) = Inr f"
    by (simp add: processFrame_def turned_input_def initialTracker_def smoothedData_def
        turned_face_length Let_def)
  obtain tr' where r: "run_ticks REAL HEALTHY initialTracker [turned_tick] = Some tr'"
    by (simp add: loop_def turned_tick_def processFrame_def turned_input_def
        initialTracker_def smoothedData_def turned_face_length Let_def)
  have c: "list_all (\<lambda>tk. scores_in_unit (detectForVideo (tick_input tk))) [turned_tick]"
    using b by (simp add: turned_tick_def)
  have d: "stability_ok (playing ?P)"
    by (simp add: playing_def initialSession_def stability_ok_def)
  have e: "headStabilityScore (run_game ?P (playing ?P) [(moving_head, 0.5, 0.5)]) = 99.8"
    by (simp add: playing_def initialSession_def gameLoop_def measured_props_def
        moving_head_def DEFAULT_FACE_DATA_def Let_def)
  show ?thesis
    using ranges_invariant[where tr = initialTracker and inp = turned_input and f = f
        and tks = "[turned_tick]" and m = REAL and p = HEALTHY and tr' = tr' and P = ?P
        and s = "playing ?P" and evs = "[(moving_head, 0.5, 0.5)]"]
      a b c d e f r
    by simp
qed

section \<open>The range of the gaze fields\<close>

subsection \<open>Bounds on the sine and on \<open>pi\<close>\<close>

text \<open>The generator at a concrete time needs the sine at concrete arguments. The Maclaurin
  sums of the sine with their remainder bound give it near zero; comparing with
  \<open>sin (pi/6) = 1/2\<close> encloses \<open>pi\<close>, which brings larger arguments back by periodicity.\<close>

lemma sin_poly5: "(\<Sum>m<5. sin_coeff m * x ^ m) = x - x^3/6" for x :: real
  by (simp add: eval_nat_numeral sin_coeff_Suc cos_coeff_Suc)

lemma sin_poly7: "(\<Sum>m<7. sin_coeff m * x ^ m) = x - x^3/6 + x^5/120" for x :: real
  by (simp add: eval_nat_numeral sin_coeff_Suc cos_coeff_Suc)

lemma sin_lower5: "x - x^3/6 - \<bar>x\<bar>^5/120 \<le> sin x"
  and sin_upper5: "sin x \<le> x - x^3/6 + \<bar>x\<bar>^5/120" for x :: real
proof -
  have "\<bar>sin x - (\<Sum>m<5. sin_coeff m * x ^ m)\<bar> \<le> inverse (fact 5) * \<bar>x\<bar> ^ 5"
    by (rule Maclaurin_sin_bound)
  then have "\<bar>sin x - (x - x^3/6)\<bar> \<le> \<bar>x\<bar>^5/120"
    by (simp add: sin_poly5 fact_numeral)
  then show "x - x^3/6 - \<bar>x\<bar>^5/120 \<le> sin x" "sin x \<le> x - x^3/6 + \<bar>x\<bar>^5/120"
    by linarith+
qed

lemma sin_lower7: "x - x^3/6 + x^5/120 - \<bar>x\<bar>^7/5040 \<le> sin x" for x :: real
proof -
  have "\<bar>sin x - (\<Sum>m<7. sin_coeff m * x ^ m)\<bar> \<le> inverse (fact 7) * \<bar>x\<bar> ^ 7"
    by (rule Maclaurin_sin_bound)
  then have "\<bar>sin x - (x - x^3/6 + x^5/120)\<bar> \<le> \<bar>x\<bar>^7/5040"
    by (simp add: sin_poly7 fact_numeral)
  then show ?thesis
    by linarith
qed

lemma pi_lower: "31404 / 10000 < pi"
proof -
  have "(5234/10000 :: real) - (5234/10000)^3/6 + \<bar>5234/10000\<bar>^5/120 < 1/2"
    by (simp add: power_divide)
  with sin_upper5[of "5234/10000"] have "sin (5234/10000 :: real) < sin (pi / 6)"
    by (simp add: sin_30)
  moreover have "- (pi / 2) \<le> 5234/10000" "pi / 6 \<le> pi / 2" "- (pi / 2) \<le> pi / 6" "5234/10000 \<le> pi / 2"
    using pi_ge_two by simp_all
  ultimately have "5234/10000 < pi / 6"
    by (simp add: sin_mono_less_eq)
  then show ?thesis by simp
qed

lemma pi_upper: "pi < 3162 / 1000"
proof -
  have "(527/1000 :: real) - (527/1000)^3/6 - \<bar>527/1000\<bar>^5/120 > 1/2"
    by (simp add: power_divide)
  with sin_lower5[of "527/1000"] have "sin (pi / 6) < sin (527/1000 :: real)"
    by (simp add: sin_30)
  moreover have "- (pi / 2) \<le> 527/1000" "pi / 6 \<le> pi / 2" "- (pi / 2) \<le> pi / 6" "527/1000 \<le> pi / 2"
    using pi_ge_two by simp_all
  ultimately have "pi / 6 < 527/1000"
    by (simp add: sin_mono_less_eq)
  then show ?thesis by simp
qed

lemma sin_shift: "sin (x + 2 * pi * of_int n) = sin x"
  by (simp add: sin_add)

lemma sin_7_4: "98 / 100 \<le> sin (7 / 4 :: real)"
proof -
  have "(98 / 100 :: real) \<le> 7/4 - (7/4)^3/6 + (7/4)^5/120 - \<bar>7/4\<bar>^7/5040"
    by (simp add: power_divide)
  with sin_lower7[of "7/4"] show ?thesis by linarith
qed

lemma sqrt3_half: "866 / 1000 \<le> sqrt 3 / 2"
proof -
  have "(1732 / 1000)\<^sup>2 \<le> (3::real)" by (simp add: power_divide)
  then have "1732 / 1000 \<le> sqrt 3" by (rule real_le_rsqrt)
  then show ?thesis by simp
qed

lemma sin_70_9: "866 / 1000 \<le> sin (70 / 9 :: real)"
proof -
  have "sin (70 / 9 :: real) = sin (70 / 9 + 2 * pi * of_int (- 1))"
    by (simp only: sin_shift)
  also have "\<dots> = sin (70 / 9 - 2 * pi)" by simp
  finally have e: "sin (70 / 9 :: real) = sin (70 / 9 - 2 * pi)" .
  have "sin (pi / 3) \<le> sin (70 / 9 - 2 * pi)"
    using pi_lower pi_upper by (intro sin_monotone_2pi_le) simp_all
  with e sqrt3_half show ?thesis by (simp add: sin_60)
qed

lemma sin_ge_between:
  fixes a :: real and y :: real
  assumes "0 \<le> a" and "a \<le> y" and "y \<le> pi - a"
  shows "sin a \<le> sin y"
proof (cases "y \<le> pi / 2")
  case True
  with assms show ?thesis by (intro sin_monotone_2pi_le) simp_all
next
  case False
  have "sin a \<le> sin (pi - y)"
    using assms False by (intro sin_monotone_2pi_le) simp_all
  then show ?thesis by simp
qed

lemma sin_seed3_strong: "sin (37035 / 100 :: real) \<le> - (1 / 5)"
proof -
  have "sin (37035 / 100 :: real) = sin (37035 / 100 + 2 * pi * of_int (- 59))"
    by (simp only: sin_shift)
  also have "\<dots> = sin (- (118 * pi - 37035 / 100))" by simp
  also have "\<dots> = - sin (118 * pi - 37035 / 100)" by (rule sin_minus)
  finally have e: "sin (37035 / 100 :: real) = - sin (118 * pi - 37035 / 100)" .
  have "(1 / 5 :: real) \<le> 217/1000 - (217/1000)^3/6 - \<bar>217/1000\<bar>^5/120"
    by (simp add: power_divide)
  with sin_lower5[of "217/1000"] have "1 / 5 \<le> sin (217 / 1000 :: real)" by linarith
  moreover have "sin (217 / 1000 :: real) \<le> sin (118 * pi - 37035 / 100)"
    using pi_lower pi_upper by (intro sin_ge_between) simp_all
  ultimately show ?thesis unfolding e by linarith
qed

lemma sin_seed3: "sin (37035 / 100 :: real) \<le> 0"
  using sin_seed3_strong by linarith

lemma seed_7000: "sim_seed LOW 7000 = 3"
  by (simp add: sim_seed_def SACCADE_INTERVAL_def)

lemma progress_7000: "sim_progress LOW 7000 = 1"
  by (simp add: sim_progress_def SACCADE_INTERVAL_def js_mod_def)

lemma gazeX_7000: "sim_gazeX LOW 7000 (1/2) = sin (37035 / 100) * (1/2) - (sin (7/4) * 32 + sin (70 / 9) * 6) / 35"
  by (simp add: sim_gazeX_def sim_scanX_def sim_yaw_def sim_ease_def seed_7000 progress_7000 Let_def)

text \<open>
  Claim C3 fails on the code: the synthetic generator with the Low profile at 7000 ms, with
  its random draws at 0.5 (no jitter), produces a gazeX below \<open>-1\<close> (about \<open>-1.25\<close>: the
  head-compensation term alone is below \<open>-1\<close> there), although the \<^verbatim>\<open>FaceData\<close> interface
  documents gazeX as \<^verbatim>\<open>-1 to 1\<close>.
\<close>

theorem low_profile_gaze_counterexample: "gazeX (simulateData LOW 7000 (1/2) (1/2) (1/2)) < - 1"
proof -
  have "gazeX (simulateData LOW 7000 (1/2) (1/2) (1/2)) =
        sin (37035 / 100) / 2 - (sin (7/4) * 32 + sin (70 / 9) * 6) / 35"
    by (simp add: simulateData_def gazeX_7000)
  moreover have "c / 2 - (a * 32 + b * 6) / 35 < - 1"
    if "98 / 100 \<le> a" "866 / 1000 \<le> b" "c \<le> 0" for a :: real and b :: real and c :: real
    using that by (simp add: field_simps)
  from this[OF sin_7_4 sin_70_9 sin_seed3]
  have "sin (37035 / 100 :: real) / 2 - (sin (7/4) * 32 + sin (70 / 9) * 6) / 35 < - 1" .
  ultimately show ?thesis by simp
qed

text \<open>No draw of the jitter brings that frame back into range.\<close>

lemma gazeX_7000_any:
  "sim_gazeX LOW 7000 rx =
     sin (37035 / 100) / 2 + (rx - 1 / 2) * (3 / 20) - (sin (7/4) * 32 + sin (70 / 9) * 6) / 35"
  by (simp add: sim_gazeX_def sim_scanX_def sim_yaw_def sim_ease_def seed_7000 progress_7000 Let_def)

lemma low_gaze_any_draw:
  assumes "is_random rx"
  shows "gazeX (simulateData LOW 7000 rx ry rb) < - 1"
proof -
  have "c / 2 + (rx - 1 / 2) * (3 / 20) - (a * 32 + b * 6) / 35 < - 1"
    if "98 / 100 \<le> a" "866 / 1000 \<le> b" "c \<le> - (1 / 5)" "rx < 1"
    for a :: real and b :: real and c :: real
    using that by (simp add: field_simps)
  from this[OF sin_7_4 sin_70_9 sin_seed3_strong] assms
  show ?thesis by (simp add: simulateData_def gazeX_7000_any is_random_def)
qed

subsection \<open>Bounds on the generated and the detected gaze\<close>

lemma js_mod_nonneg:
  assumes "0 \<le> a" and "0 < b"
  shows "0 \<le> js_mod a b"
proof -
  have q: "0 \<le> a / b" using assms by simp
  have "of_int \<lfloor>a / b\<rfloor> \<le> a / b" by (rule of_int_floor_le)
  then have "b * of_int \<lfloor>a / b\<rfloor> \<le> b * (a / b)"
    using assms(2) by (intro mult_left_mono) simp_all
  also have "\<dots> = a" using assms(2) by simp
  finally show ?thesis using q by (simp add: js_mod_def)
qed

lemma sim_progress_range:
  assumes "0 \<le> t"
  shows "0 \<le> sim_progress p t" and "sim_progress p t \<le> 1"
proof -
  have "0 \<le> js_mod t (SACCADE_INTERVAL p)"
    using assms by (intro js_mod_nonneg) (simp_all add: SACCADE_INTERVAL_def)
  then show "0 \<le> sim_progress p t" by (simp add: sim_progress_def)
  show "sim_progress p t \<le> 1" by (simp add: sim_progress_def)
qed

lemma sim_ease_range:
  assumes "0 \<le> t"
  shows "0 \<le> sim_ease p t" and "sim_ease p t \<le> 1"
proof -
  let ?q = "1 - sim_progress p t"
  have q: "0 \<le> ?q" "?q \<le> 1"
    using sim_progress_range[OF assms, of p] by simp_all
  have "?q ^ 3 \<le> 1 ^ 3" using q by (intro power_mono) simp_all
  then show "0 \<le> sim_ease p t" by (simp add: sim_ease_def)
  have "0 \<le> ?q ^ 3" using q(1) by (rule zero_le_power)
  then show "sim_ease p t \<le> 1" by (simp add: sim_ease_def)
qed

lemma convex_bound:
  fixes a :: real and b :: real and c :: real and e :: real
  assumes "\<bar>a\<bar> \<le> c" and "\<bar>b\<bar> \<le> c" and "0 \<le> e" and "e \<le> 1"
  shows "\<bar>a + (b - a) * e\<bar> \<le> c"
proof -
  have "\<bar>(1 - e) * a\<bar> = (1 - e) * \<bar>a\<bar>" using assms(4) by (simp add: abs_mult)
  also have "\<dots> \<le> (1 - e) * c" using assms(1,4) by (intro mult_left_mono) simp_all
  finally have 1: "\<bar>(1 - e) * a\<bar> \<le> (1 - e) * c" .
  have "\<bar>e * b\<bar> = e * \<bar>b\<bar>" using assms(3) by (simp add: abs_mult)
  also have "\<dots> \<le> e * c" using assms(2,3) by (intro mult_left_mono) simp_all
  finally have 2: "\<bar>e * b\<bar> \<le> e * c" .
  have "a + (b - a) * e = (1 - e) * a + e * b" by (simp add: algebra_simps)
  moreover have "\<bar>(1 - e) * a + e * b\<bar> \<le> \<bar>(1 - e) * a\<bar> + \<bar>e * b\<bar>" by (rule abs_triangle_ineq)
  moreover have "(1 - e) * c + e * c = c" by (simp add: algebra_simps)
  ultimately show ?thesis using 1 2 by linarith
qed

lemma jitter_bound:
  fixes r :: real and j :: real
  assumes "0 \<le> r" and "r \<le> 1" and "0 \<le> j"
  shows "\<bar>(r - 1 / 2) * j\<bar> \<le> j / 2"
proof -
  have "\<bar>(r - 1 / 2) * j\<bar> = \<bar>r - 1 / 2\<bar> * j" using assms(3) by (simp add: abs_mult)
  also have "\<dots> \<le> (1 / 2) * j"
  proof (rule mult_right_mono)
    show "\<bar>r - 1 / 2\<bar> \<le> 1 / 2" using assms(1,2) by linarith
    show "0 \<le> j" by (rule assms(3))
  qed
  finally show ?thesis by simp
qed

lemma gazeJitter_nonneg: "0 \<le> gazeJitter p"
  by (cases p) simp_all

lemma sim_scanX_bound:
  assumes "0 \<le> t" and "0 \<le> rx" and "rx \<le> 1"
  shows "\<bar>sim_scanX p t rx\<bar> \<le> 1 / 2 + gazeJitter p / 2"
proof -
  let ?a = "sin ((sim_seed p t - 1) * 123.45) * 0.5"
  let ?b = "sin (sim_seed p t * 123.45) * 0.5"
  have a: "\<bar>?a\<bar> \<le> 1 / 2" and b: "\<bar>?b\<bar> \<le> 1 / 2"
    by (simp_all add: abs_mult)
  have s: "\<bar>?a + (?b - ?a) * sim_ease p t\<bar> \<le> 1 / 2"
    using a b sim_ease_range[OF assms(1), of p] by (rule convex_bound)
  have j: "\<bar>(rx - 1 / 2) * gazeJitter p\<bar> \<le> gazeJitter p / 2"
    using assms(2,3) gazeJitter_nonneg by (rule jitter_bound)
  have "sim_scanX p t rx = ?a + (?b - ?a) * sim_ease p t
          \<or> sim_scanX p t rx = ?a + (?b - ?a) * sim_ease p t + (rx - 1 / 2) * gazeJitter p"
    by (simp add: sim_scanX_def Let_def)
  then show ?thesis
    using s j gazeJitter_nonneg[of p] by (elim disjE) linarith+
qed

lemma sim_scanY_bound:
  assumes "0 \<le> t" and "0 \<le> ry" and "ry \<le> 1"
  shows "\<bar>sim_scanY p t ry\<bar> \<le> 3 / 10 + gazeJitter p / 2"
proof -
  let ?a = "cos ((sim_seed p t - 1) * 678.90) * 0.3"
  let ?b = "cos (sim_seed p t * 678.90) * 0.3"
  have a: "\<bar>?a\<bar> \<le> 3 / 10" and b: "\<bar>?b\<bar> \<le> 3 / 10"
    by (simp_all add: abs_mult)
  have s: "\<bar>?a + (?b - ?a) * sim_ease p t\<bar> \<le> 3 / 10"
    using a b sim_ease_range[OF assms(1), of p] by (rule convex_bound)
  have j: "\<bar>(ry - 1 / 2) * gazeJitter p\<bar> \<le> gazeJitter p / 2"
    using assms(2,3) gazeJitter_nonneg by (rule jitter_bound)
  have "sim_scanY p t ry = ?a + (?b - ?a) * sim_ease p t
          \<or> sim_scanY p t ry = ?a + (?b - ?a) * sim_ease p t + (ry - 1 / 2) * gazeJitter p"
    by (simp add: sim_scanY_def Let_def)
  then show ?thesis
    using s j gazeJitter_nonneg[of p] by (elim disjE) linarith+
qed

lemma headStabilityMult_pos: "0 < headStabilityMult p"
  by (cases p) simp_all

lemma sim_yaw_bound: "\<bar>sim_yaw p t\<bar> \<le> 19 / 2 * headStabilityMult p"
proof -
  let ?m = "headStabilityMult p"
  have "sim_yaw p t = (sin (t / 4000) * 8 + sin (t / 900) * (3 / 2)) * ?m"
    by (simp add: sim_yaw_def algebra_simps)
  moreover have "\<bar>sin (t / 4000) * 8 + sin (t / 900) * (3 / 2)\<bar> \<le> 19 / 2"
    using sin_le_one[of "t / 4000"] sin_ge_minus_one[of "t / 4000"]
      sin_le_one[of "t / 900"] sin_ge_minus_one[of "t / 900"] by linarith
  ultimately have "\<bar>sim_yaw p t\<bar> \<le> 19 / 2 * ?m"
    using headStabilityMult_pos[of p] by (simp add: abs_mult mult_right_mono)
  then show ?thesis .
qed

lemma sim_pitch_bound:
  "- 3 * headStabilityMult p \<le> sim_pitch p t" "sim_pitch p t \<le> 7 * headStabilityMult p"
proof -
  let ?m = "headStabilityMult p"
  let ?w = "cos (t / 5000) * 4 + 2 + sin (t / 1200)"
  have e: "sim_pitch p t = ?w * ?m"
    by (simp add: sim_pitch_def algebra_simps)
  have w: "- 3 \<le> ?w" "?w \<le> 7"
    using cos_ge_minus_one[of "t / 5000"] cos_le_one[of "t / 5000"]
      sin_ge_minus_one[of "t / 1200"] sin_le_one[of "t / 1200"] by linarith+
  have "- 3 * ?m \<le> ?w * ?m" using w(1) headStabilityMult_pos[of p] by (intro mult_right_mono) simp_all
  then show "- 3 * ?m \<le> sim_pitch p t" unfolding e .
  have "?w * ?m \<le> 7 * ?m" using w(2) headStabilityMult_pos[of p] by (intro mult_right_mono) simp_all
  then show "sim_pitch p t \<le> 7 * ?m" unfolding e .
qed

lemma sim_gazeX_bound:
  assumes "0 \<le> t" and "0 \<le> rx" and "rx \<le> 1"
  shows "\<bar>sim_gazeX p t rx\<bar> \<le> 1 / 2 + gazeJitter p / 2 + 19 / 70 * headStabilityMult p"
  using sim_scanX_bound[OF assms, of p] sim_yaw_bound[of p t]
  unfolding sim_gazeX_def by linarith

lemma sim_gazeY_bound:
  assumes "0 \<le> t" and "0 \<le> ry" and "ry \<le> 1"
  shows "- (3 / 10 + gazeJitter p / 2 + 1 / 5 * headStabilityMult p) \<le> sim_gazeY p t ry"
    and "sim_gazeY p t ry \<le> 3 / 10 + gazeJitter p / 2 + 3 / 35 * headStabilityMult p"
  using sim_scanY_bound[OF assms, of p] sim_pitch_bound[of p t]
  by (simp_all add: sim_gazeY_def abs_le_iff)

lemma simulateData_gaze_ok:
  assumes "p \<noteq> LOW" and "0 \<le> t" and "is_random rx" and "is_random ry"
  shows "gaze_ok (simulateData p t rx ry rb)"
proof -
  have r: "0 \<le> rx" "rx \<le> 1" "0 \<le> ry" "ry \<le> 1"
    using assms(3,4) by (simp_all add: is_random_def)
  show ?thesis
    using sim_gazeX_bound[OF assms(2) r(1,2), of p] sim_gazeY_bound[OF assms(2) r(3,4), of p]
      assms(1)
    by (cases p) (simp_all add: gaze_ok_def simulateData_def, linarith+)
qed

lemma simulateData_gaze_low:
  assumes "0 \<le> t" and "is_random rx" and "is_random ry"
  shows "\<bar>gazeX (simulateData LOW t rx ry rb)\<bar> \<le> 0.575 + 38 / 35"
    and "- (0.375 + 28 / 35) \<le> gazeY (simulateData LOW t rx ry rb)"
    and "gazeY (simulateData LOW t rx ry rb) \<le> 0.375 + 12 / 35"
proof -
  have r: "0 \<le> rx" "rx \<le> 1" "0 \<le> ry" "ry \<le> 1"
    using assms(2,3) by (simp_all add: is_random_def)
  show "\<bar>gazeX (simulateData LOW t rx ry rb)\<bar> \<le> 0.575 + 38 / 35"
    using sim_gazeX_bound[OF assms(1) r(1,2), of LOW] by (simp add: simulateData_def)
  show "- (0.375 + 28 / 35) \<le> gazeY (simulateData LOW t rx ry rb)"
    "gazeY (simulateData LOW t rx ry rb) \<le> 0.375 + 12 / 35"
    using sim_gazeY_bound[OF assms(1) r(3,4), of LOW] by (simp_all add: simulateData_def)
qed

lemma lerp_half_unit:
  assumes "- 1 \<le> a" "a \<le> 1" "in_unit v"
  shows "- 1 \<le> lerp a ((v - 0.5) * 2) POSE_SMOOTHING" "lerp a ((v - 0.5) * 2) POSE_SMOOTHING \<le> 1"
proof -
  have v: "0 \<le> v" "v \<le> 1" using assms(3) by (simp_all add: in_unit_def)
  have e: "lerp a ((v - 0.5) * 2) POSE_SMOOTHING = a / 2 + v - 1 / 2"
    by (simp add: lerp_def POSE_SMOOTHING_def field_simps)
  show "- 1 \<le> lerp a ((v - 0.5) * 2) POSE_SMOOTHING"
    "lerp a ((v - 0.5) * 2) POSE_SMOOTHING \<le> 1"
    unfolding e using assms(1,2) v by linarith+
qed

lemma smoothedData_gaze_ok:
  assumes "gaze_ok prev" and "in_unit (px (landmarks ! 1))" and "in_unit (py (landmarks ! 1))"
    and "smoothedData prev landmarks bs = Inr f"
  shows "gaze_ok f"
proof -
  from assms(4) have
    "gazeX f = lerp (gazeX prev) ((px (landmarks ! 1) - 0.5) * 2) POSE_SMOOTHING"
    "gazeY f = lerp (gazeY prev) ((py (landmarks ! 1) - 0.5) * 2) POSE_SMOOTHING"
    by (auto simp: smoothedData_def Let_def split: if_splits)
  then show ?thesis
    using assms(1) lerp_half_unit[OF _ _ assms(2), of "gazeX prev"]
      lerp_half_unit[OF _ _ assms(3), of "gazeY prev"]
    by (simp add: gaze_ok_def)
qed

lemma processFrame_gaze_ok:
  assumes "gaze_ok (prevData tr)" and "nose_in_image (detectForVideo inp)"
    and "fst (processFrame tr inp) = Inr f"
  shows "gaze_ok f"
proof (cases "\<not> modelReady inp \<or> currentTime inp = lastVideoTime tr")
  case True
  with assms show ?thesis
    by (auto simp: processFrame_def gaze_ok_def split: if_splits)
next
  case False
  show ?thesis
  proof (cases "detectForVideo inp")
    case Threw
    with False assms show ?thesis by (simp add: processFrame_def)
  next
    case (Returned faces bs)
    show ?thesis
    proof (cases "\<exists>landmarks others. faces = Some (landmarks # others)")
      case True
      then obtain landmarks others where fc: "faces = Some (landmarks # others)" by blast
      with False Returned assms have "smoothedData (prevData tr) landmarks bs = Inr f"
        by (simp add: processFrame_def)
      moreover have "in_unit (px (landmarks ! 1))" "in_unit (py (landmarks ! 1))"
        using assms(2) Returned fc by (simp_all add: nose_in_image_def)
      ultimately show ?thesis using assms(1) by (simp add: smoothedData_gaze_ok)
    next
      case no: False
      then have "faces = None \<or> faces = Some []"
        by (cases faces; cases "the faces"; simp)
      with False Returned assms show ?thesis
        by (auto simp: processFrame_def gaze_ok_def)
    qed
  qed
qed

text \<open>
  What the code does guarantee of the gaze. The synthetic generator produces gazeX and gazeY
  in \<open>[-1,1]\<close> for the Healthy and the High profile, at every time \<open>t \<ge> 0\<close> and for all
  random draws; for the Low profile it keeps gazeX within \<open>0.575 + 38/35\<close> of zero and
  gazeY in \<open>[-(0.375 + 28/35), 0.375 + 12/35]\<close> only. The detector adapter returns gazeX and
  gazeY in \<open>[-1,1]\<close> whenever the previous frame's gaze is in \<open>[-1,1]\<close> and the nose
  landmark it reads lies in the normalized image \<open>[0,1] \<times> [0,1]\<close>.
\<close>

theorem gaze_range:
  "(p \<noteq> LOW \<and> 0 \<le> t \<and> is_random rx \<and> is_random ry \<longrightarrow>
      gaze_ok (simulateData p t rx ry rb))
   \<and> (0 \<le> t \<and> is_random rx \<and> is_random ry \<longrightarrow>
        \<bar>gazeX (simulateData LOW t rx ry rb)\<bar> \<le> 0.575 + 38 / 35
        \<and> - (0.375 + 28 / 35) \<le> gazeY (simulateData LOW t rx ry rb)
        \<and> gazeY (simulateData LOW t rx ry rb) \<le> 0.375 + 12 / 35)
   \<and> (gaze_ok (prevData tr) \<and> nose_in_image (detectForVideo inp)
        \<and> fst (processFrame tr inp) = Inr f \<longrightarrow> gaze_ok f)"
  using simulateData_gaze_ok[of p t rx ry rb] simulateData_gaze_low[of t rx ry rb]
    processFrame_gaze_ok[of tr inp f]
  by blast

text \<open>The hypothesis on the nose landmark is needed: a nose at \<open>x = 1.6\<close>, outside the
  image, gives a gazeX of 1.1 on the first frame.\<close>

lemma offscreen_gaze:
  "map_sum id gazeX (fst (processFrame initialTracker offscreen_input)) = Inr 1.1"
  by (simp add: processFrame_def offscreen_input_def initialTracker_def smoothedData_def
      offscreen_face_def Let_def lerp_def POSE_SMOOTHING_def DEFAULT_FACE_DATA_def)

theorem gaze_range_witness:
  "gaze_ok (simulateData HEALTHY 7000 0.5 0.5 0.5)
   \<and> \<bar>gazeX (simulateData LOW 7000 0.5 0.5 0.5)\<bar> \<le> 0.575 + 38 / 35
   \<and> gaze_ok (prevData initialTracker)
   \<and> nose_in_image (detectForVideo turned_input)
   \<and> (case fst (processFrame initialTracker turned_input) of
         Inl e \<Rightarrow> False | Inr f \<Rightarrow> gaze_ok f)"
proof -
  have a: "gaze_ok (prevData initialTracker)"
    by (simp add: initialTracker_def gaze_ok_def DEFAULT_FACE_DATA_def)
  have b: "nose_in_image (detectForVideo turned_input)"
    by (simp add: turned_input_def nose_in_image_def turned_face_length turned_face_nth
        in_unit_def)
  obtain f where f: "fst (processFrame initialTracker turned_input) = Inr f"
    by (simp add: processFrame_def turned_input_def initialTracker_def smoothedData_def
        turned_face_length Let_def)
  have r: "is_random 0.5" by (simp add: is_random_def)
  show ?thesis
    using gaze_range[where p = HEALTHY and t = 7000 and rx = "0.5" and ry = "0.5" and rb = "0.5"
        and tr = initialTracker and inp = turned_input and f = f] a b f r
    by simp
qed

end
